theory Spec2Isabelle
  imports Complex_Main
begin

section \<open>Numbers, points and bounds\<close>

text \<open>
  The map chart computes with JavaScript numbers. They are modelled as \<^typ>\<open>real\<close>: the
  exact arithmetic that the code's formulas approximate. A value that is \<open>undefined\<close>
  in the source is \<open>None\<close> of an option type. \<open>NaN\<close> and the infinities have no
  counterpart; a statement whose truth depends on a divisor carries the hypothesis that
  the divisor is not zero.
\<close>

record IPoint =
  px :: real
  py :: real

record IGeoPoint =
  longitude :: real
  latitude :: real

text \<open>The object \<open>{ left, right, top, bottom }\<close> of geographic bounds.\<close>

record GeoBounds =
  gb_left :: real
  gb_right :: real
  gb_top :: real
  gb_bottom :: real

section \<open>The projection\<close>

text \<open>
  \<open>GeoProjection\<close> is an object of the d3-geo library, which is not part of the
  repository. It is taken as a parameter with the shape the library documents: a raw
  map from longitude and latitude (under a rotation) to unit coordinates, which the
  projection scales by \<open>scale\<close> and moves by \<open>translate\<close>; an optional inverse
  (\<open>projection.invert\<close> may be absent); an optional \<open>rotate\<close>; \<open>fitSize\<close>, which
  chooses a scale and a translate from a viewport size and a geometry collection; and
  the screen bounds that \<open>geoPath.bounds\<close> computes through the projection. The
  type \<open>'g\<close> is a GeoJSON geometry.
\<close>

type_synonym rot = "real \<times> real \<times> real"

record 'g GeoProjection =
  raw :: "rot \<Rightarrow> real \<times> real \<Rightarrow> (real \<times> real) option"
  rawInvert :: "(rot \<Rightarrow> real \<times> real \<Rightarrow> (real \<times> real) option) option"
  canRotate :: bool
  fitSize :: "real \<times> real \<Rightarrow> rot \<Rightarrow> 'g list \<Rightarrow> real \<times> (real \<times> real)"
  pathBounds :: "real \<Rightarrow> real \<times> real \<Rightarrow> rot \<Rightarrow> 'g list \<Rightarrow> (real \<times> real) \<times> (real \<times> real)"
  p_scale :: real
  p_translate :: "real \<times> real"
  p_rotate :: rot

text \<open>\<open>projection([lon, lat])\<close>: the forward projection, \<open>None\<close> for no result.\<close>

definition project :: "'g GeoProjection \<Rightarrow> real \<times> real \<Rightarrow> (real \<times> real) option" where
  "project P ll =
     (case raw P (p_rotate P) ll of
        None \<Rightarrow> None
      | Some uv \<Rightarrow> Some (fst (p_translate P) + p_scale P * fst uv,
                         snd (p_translate P) + p_scale P * snd uv))"

text \<open>\<open>projection.invert([x, y])\<close>, for a projection that has an inverse \<open>f\<close>.\<close>

definition projectInvert ::
  "'g GeoProjection \<Rightarrow> (rot \<Rightarrow> real \<times> real \<Rightarrow> (real \<times> real) option) \<Rightarrow> real \<times> real
     \<Rightarrow> (real \<times> real) option" where
  "projectInvert P f xy =
     f (p_rotate P) ((fst xy - fst (p_translate P)) / p_scale P,
                     (snd xy - snd (p_translate P)) / p_scale P)"

section \<open>Settings and chart state\<close>

text \<open>
  The numeric settings of \<open>IMapChartSettings\<close> (and the paddings of the container) are
  a map from keys to numbers; \<open>Width\<close> and \<open>Height\<close> are keys only of the private
  dirty flags, \<open>Projection\<close> only of the dirty flags.
\<close>

datatype Key =
    ZoomLevel | TranslateX | TranslateY | RotationX | RotationY | RotationZ
  | MaxZoomLevel | MinZoomLevel | ZoomStep | MaxPanOut | AnimationDuration
  | HomeZoomLevel | PaddingTop | PaddingLeft | PaddingRight | PaddingBottom
  | Projection | Width | Height

datatype PanX = PanXNone | PanXRotateX | PanXTranslateX
datatype PanY = PanYNone | PanYRotateY | PanYTranslateY

datatype Event = Geoboundschanged

text \<open>A running animation of a setting: its key, its target and its duration.\<close>

datatype Animation = Animation (a_key: Key) (a_to: real) (a_duration: real)

record 'g MapChart =
  settings :: "Key \<rightharpoonup> real"
  dirty :: "Key set"
  privateDirty :: "Key set"
  projection :: "'g GeoProjection"
  panX :: "PanX option"
  panY :: "PanY option"
  pinchZoom :: bool
  mapScale :: real
  width :: real
  height :: real
  seriesInnerWidth :: real
  seriesInnerHeight :: real
  series :: "'g list list"
  d3geoBounds :: "'g list \<Rightarrow> (real \<times> real) \<times> (real \<times> real)"
  getGeoCentroid :: "'g list \<Rightarrow> IGeoPoint"
  toLocal :: "IPoint \<Rightarrow> IPoint"
  eventsEnabled :: bool
  downTranslateX :: "real option"
  downTranslateY :: "real option"
  downZoomLevel :: real
  movePoints :: "nat \<rightharpoonup> IPoint"
  downPoints :: "(nat \<times> IPoint) list"
  dirtyGeometries :: bool
  geometryColection :: "'g list"
  centerLocation :: "(real \<times> real) option"
  za :: "Animation option"
  txa :: "Animation option"
  tya :: "Animation option"
  mapBounds :: "(real \<times> real) \<times> (real \<times> real)"
  geoCentroid :: IGeoPoint
  centroid :: IPoint
  geoBounds :: GeoBounds
  prevGeoBounds :: GeoBounds
  dispatchBounds :: bool

text \<open>
  \<open>mapScale\<close> is a private setting, written by the first fit before it is read.
  \<open>width\<close> and \<open>height\<close> are what \<open>this.width()\<close> and \<open>this.height()\<close> return,
  \<open>seriesInnerWidth\<close> and \<open>seriesInnerHeight\<close> are the inner size of the series
  container, \<open>toLocal\<close> is the display's transformation of a global point, \<open>eventsEnabled\<close>
  is \<open>this.events.isEnabled("geoboundschanged")\<close>, \<open>downPoints\<close> is
  \<open>chartContainer._downPoints\<close> in the order in which its keys are enumerated, and
  \<open>d3geoBounds\<close> and \<open>getGeoCentroid\<close> are the library's geographic bounds
  \<open>[[left, bottom], [right, top]]\<close> and the centroid of a geometry collection.
\<close>

text \<open>\<open>this.get(key, default)\<close>.\<close>

definition get :: "'g MapChart \<Rightarrow> Key \<Rightarrow> real \<Rightarrow> real" where
  "get s k d = (case settings s k of None \<Rightarrow> d | Some v \<Rightarrow> v)"

text \<open>
  Modelled from the spec: \<open>Entity.set\<close> and \<open>Entity.setRaw\<close>, which are not under
  src/. \<open>set\<close> "stores value, adds key to dirty set if changed"; \<open>setRaw\<close> "stores value
  without marking dirty".
\<close>

definition set_setting :: "'g MapChart \<Rightarrow> Key \<Rightarrow> real \<Rightarrow> 'g MapChart" where
  "set_setting s k v =
     (if settings s k = Some v then s
      else s\<lparr>settings := (settings s)(k \<mapsto> v), dirty := insert k (dirty s)\<rparr>)"

definition setRaw :: "'g MapChart \<Rightarrow> Key \<Rightarrow> real \<Rightarrow> 'g MapChart" where
  "setRaw s k v = s\<lparr>settings := (settings s)(k \<mapsto> v)\<rparr>"

definition isDirty :: "'g MapChart \<Rightarrow> Key \<Rightarrow> bool" where
  "isDirty s k = (k \<in> dirty s)"

definition isPrivateDirty :: "'g MapChart \<Rightarrow> Key \<Rightarrow> bool" where
  "isPrivateDirty s k = (k \<in> privateDirty s)"

text \<open>
  Modelled from the spec: \<open>Container.innerWidth\<close> and \<open>innerHeight\<close>, which are not
  under src/: the width and height less the paddings.
\<close>

definition innerWidth :: "'g MapChart \<Rightarrow> real" where
  "innerWidth s = width s - get s PaddingRight 0 - get s PaddingLeft 0"

definition innerHeight :: "'g MapChart \<Rightarrow> real" where
  "innerHeight s = height s - get s PaddingTop 0 - get s PaddingBottom 0"

section \<open>Coordinate transforms\<close>

definition invert :: "'g MapChart \<Rightarrow> IPoint \<Rightarrow> IGeoPoint" where
  "invert s point =
     (case rawInvert (projection s) of
        Some f \<Rightarrow>
          (case projectInvert (projection s) f (px point, py point) of
             Some ll \<Rightarrow> \<lparr>longitude = fst ll, latitude = snd ll\<rparr>
           | None \<Rightarrow> \<lparr>longitude = 0, latitude = 0\<rparr>)
      | None \<Rightarrow> \<lparr>longitude = 0, latitude = 0\<rparr>)"

definition convert :: "'g MapChart \<Rightarrow> IGeoPoint \<Rightarrow> IPoint" where
  "convert s point =
     (case project (projection s) (longitude point, latitude point) of
        Some xy \<Rightarrow> \<lparr>px = fst xy, py = snd xy\<rparr>
      | None \<Rightarrow> \<lparr>px = 0, py = 0\<rparr>)"

section \<open>Zooming\<close>

text \<open>
  Modelled from the spec: \<open>$math.fitToRange\<close>, which is not under src/: the clamp of a
  value to the range from \<open>min\<close> to \<open>max\<close>.
\<close>

definition fitToRange :: "real \<Rightarrow> real \<Rightarrow> real \<Rightarrow> real" where
  "fitToRange v lo hi = min (max v lo) hi"

text \<open>
  Modelled from the spec: \<open>Entity.animate\<close>, which is not under src/. An animation is
  recorded with its target; when it completes (at once when the duration is not
  positive) the target is stored through \<open>set\<close>.
\<close>

definition complete :: "Animation option \<Rightarrow> 'g MapChart \<Rightarrow> 'g MapChart" where
  "complete a s = (case a of None \<Rightarrow> s | Some an \<Rightarrow> set_setting s (a_key an) (a_to an))"

definition completeAnimations :: "'g MapChart \<Rightarrow> 'g MapChart" where
  "completeAnimations s =
     (complete (za s) (complete (tya s) (complete (txa s) s)))\<lparr>za := None, txa := None, tya := None\<rparr>"

text \<open>
  \<open>zoomToPoint(point, level, center, duration)\<close>. The condition \<open>if (level)\<close> holds
  of every number but zero. The alert for screen readers changes nothing of the chart.
\<close>

definition zoomToPoint :: "'g MapChart \<Rightarrow> IPoint \<Rightarrow> real \<Rightarrow> bool \<Rightarrow> real option \<Rightarrow> 'g MapChart" where
  "zoomToPoint s point level0 center duration0 =
     (let level = (if level0 \<noteq> 0
                   then fitToRange level0 (get s MinZoomLevel 1) (get s MaxZoomLevel 32)
                   else level0);
          duration = (case duration0 of None \<Rightarrow> get s AnimationDuration 0 | Some d \<Rightarrow> d);
          zoomLevel = get s ZoomLevel 1;
          x = px point;
          y = py point;
          tx = get s TranslateX 0;
          ty = get s TranslateY 0;
          cx = (if center then width s / 2 else x);
          cy = (if center then height s / 2 else y);
          xx = cx - ((x - tx) / zoomLevel * level);
          yy = cy - ((y - ty) / zoomLevel * level)
      in s\<lparr>txa := Some (Animation TranslateX xx duration),
            tya := Some (Animation TranslateY yy duration),
            za := Some (Animation ZoomLevel level duration)\<rparr>)"

definition zoomToGeoPoint :: "'g MapChart \<Rightarrow> IGeoPoint \<Rightarrow> real \<Rightarrow> bool \<Rightarrow> real option \<Rightarrow> 'g MapChart" where
  "zoomToGeoPoint s geoPoint level center duration =
     zoomToPoint s (convert s geoPoint) level center duration"



definition handleWheelZoom :: "'g MapChart \<Rightarrow> real \<Rightarrow> IPoint \<Rightarrow> 'g MapChart" where
  "handleWheelZoom s delta point =
     (let step = get s ZoomStep 2;
          zoomLevel = get s ZoomLevel 1;
          newZoomLevel = (if delta > 0 then zoomLevel / step
                          else if delta < 0 then zoomLevel * step
                          else zoomLevel)
      in if newZoomLevel \<noteq> zoomLevel then zoomToPoint s point newZoomLevel False None else s)"

section \<open>Fitting the map\<close>

text \<open>
  Modelled from the spec: \<open>$math.round\<close>, which is not under src/: rounding to a
  number of decimal places, with \<open>Math.round\<close> rounding a half upwards.
\<close>

definition mathRound :: "real \<Rightarrow> nat \<Rightarrow> real" where
  "mathRound v precision = of_int \<lfloor>v * 10 ^ precision + 1 / 2\<rfloor> / 10 ^ precision"

text \<open>
  Modelled from the spec: \<open>$mapUtils.getGeoBounds\<close>, which is not under src/. It
  "returns the enclosing geographic rectangle; handles antimeridian-crossing geometry by
  detecting right < left and substituting the full [-180,180] range rather than an
  inverted/empty range". The first argument is the library's bounds of the collection.
\<close>

definition getGeoBounds ::
  "('g list \<Rightarrow> (real \<times> real) \<times> (real \<times> real)) \<Rightarrow> 'g list \<Rightarrow> GeoBounds" where
  "getGeoBounds naive geometry =
     (let bounds = naive geometry;
          gb = \<lparr>gb_left = fst (fst bounds), gb_right = fst (snd bounds),
                gb_top = snd (snd bounds), gb_bottom = snd (fst bounds)\<rparr>
      in if gb_right gb < gb_left gb then gb\<lparr>gb_right := 180, gb_left := -180\<rparr> else gb)"

definition roundBounds :: "GeoBounds \<Rightarrow> GeoBounds" where
  "roundBounds gb =
     \<lparr>gb_left = mathRound (gb_left gb) 3, gb_right = mathRound (gb_right gb) 3,
      gb_top = mathRound (gb_top gb) 3, gb_bottom = mathRound (gb_bottom gb) 3\<rparr>"

text \<open>
  \<open>_fitMap\<close>. \<open>JSON.stringify\<close> of two bounds objects gives the same string when the
  four numbers are the same.
\<close>

definition fitMap :: "'g MapChart \<Rightarrow> 'g MapChart" where
  "fitMap s =
     (let P = projection s;
          fit = fitSize P (innerWidth s, innerHeight s) (p_rotate P) (geometryColection s);
          P' = P\<lparr>p_scale := fst fit, p_translate := snd fit\<rparr>;
          translate = p_translate P';
          s1 = (s\<lparr>projection := P'\<rparr>)\<lparr>mapScale := p_scale P'\<rparr>;
          s2 = setRaw (setRaw s1 TranslateX (fst translate)) TranslateY (snd translate);
          s3 = s2\<lparr>centroid := \<lparr>px = fst translate, py = snd translate\<rparr>,
                  mapBounds := pathBounds P' (p_scale P') (p_translate P') (p_rotate P')
                                 (geometryColection s2),
                  geoCentroid := getGeoCentroid s2 (geometryColection s2),
                  geoBounds := getGeoBounds (d3geoBounds s2) (geometryColection s2)\<rparr>
      in if length (geometryColection s3) > 0 then
           (let s4 = s3\<lparr>geoBounds := roundBounds (geoBounds s3)\<rparr>
            in if geoBounds s4 \<noteq> prevGeoBounds s4
               then s4\<lparr>dispatchBounds := True, prevGeoBounds := geoBounds s4\<rparr>
               else s4)
         else s3)"

section \<open>The reconciliation pass\<close>

text \<open>
  The block of \<open>_prepareChildren\<close> that runs when the width, the height or a padding
  is dirty: it fits the projection again, stores the fit scale as \<open>mapScale\<close>, scales
  by the zoom level and puts the locked centre location back in the middle.
\<close>

definition refitSize :: "'g MapChart \<Rightarrow> 'g MapChart" where
  "refitSize s =
     (let w = innerWidth s;
          h = innerHeight s;
          hw = w / 2;
          hh = h / 2;
          P = projection s;
          fit = fitSize P (w, h) (p_rotate P) (geometryColection s);
          newScale = fst fit;
          P1 = P\<lparr>p_scale := newScale * get s ZoomLevel 1, p_translate := snd fit\<rparr>;
          s1 = s\<lparr>projection := P1, mapScale := newScale\<rparr>
      in case centerLocation s1 of
           None \<Rightarrow> s1
         | Some c \<Rightarrow>
             (case project P1 c of
                None \<Rightarrow> s1
              | Some xy \<Rightarrow>
                  (let translate = p_translate P1;
                       xx = hw - (fst xy - fst translate);
                       yy = hh - (snd xy - snd translate)
                   in setRaw (setRaw (s1\<lparr>projection := P1\<lparr>p_translate := (xx, yy)\<rparr>\<rparr>)
                                TranslateX xx) TranslateY yy)))"

text \<open>
  \<open>_prepareChildren\<close> is a sequence of blocks, each guarded by dirty flags and each
  working on the chart as the block before left it. Each block is a function here, in
  the order of the source. Notifying the series (\<open>markDirtyProjection\<close>) and replacing
  the zoom control change nothing of the state kept here.
\<close>

text \<open>\<open>if (this.isDirty("projection"))\<close>: the map is fitted.\<close>

definition projectionChanged :: "'g MapChart \<Rightarrow> 'g MapChart" where
  "projectionChanged s = (if isDirty s Projection then fitMap s else s)"

text \<open>
  \<open>if (this._dirtyGeometries)\<close>: the geometries of all series are collected and the
  map is fitted.
\<close>

definition geometriesChanged :: "'g MapChart \<Rightarrow> 'g MapChart" where
  "geometriesChanged s =
     (if dirtyGeometries s then fitMap (s\<lparr>geometryColection := concat (series s)\<rparr>) else s)"

definition sizeChanged :: "'g MapChart \<Rightarrow> 'g MapChart" where
  "sizeChanged s =
     (if isPrivateDirty s Width \<or> isPrivateDirty s Height
         \<or> isDirty s PaddingTop \<or> isDirty s PaddingLeft
      then refitSize s else s)"

text \<open>\<open>if (this.isDirty("zoomLevel"))\<close>.\<close>

definition zoomLevelChanged :: "'g MapChart \<Rightarrow> 'g MapChart" where
  "zoomLevelChanged s =
     (if isDirty s ZoomLevel
      then s\<lparr>projection := (projection s)\<lparr>p_scale := mapScale s * get s ZoomLevel 1\<rparr>\<rparr>
      else s)"

text \<open>\<open>if (this.isDirty("translateX") || this.isDirty("translateY"))\<close>.\<close>

definition translateChanged :: "'g MapChart \<Rightarrow> 'g MapChart" where
  "translateChanged s =
     (if isDirty s TranslateX \<or> isDirty s TranslateY
      then s\<lparr>projection := (projection s)
               \<lparr>p_translate := (get s TranslateX (width s / 2), get s TranslateY (height s / 2))\<rparr>\<rparr>
      else s)"

text \<open>\<open>if (projection.rotate)\<close>, and a rotation setting is dirty.\<close>

definition rotationChanged :: "'g MapChart \<Rightarrow> 'g MapChart" where
  "rotationChanged s =
     (if canRotate (projection s)
         \<and> (isDirty s RotationX \<or> isDirty s RotationY \<or> isDirty s RotationZ)
      then s\<lparr>projection := (projection s)
               \<lparr>p_rotate := (get s RotationX 0, get s RotationY 0, get s RotationZ 0)\<rparr>\<rparr>
      else s)"

text \<open>\<open>if (this._dispatchBounds)\<close>: the flag is lowered and the event dispatched.\<close>

definition dispatchGeoBounds :: "'g MapChart \<Rightarrow> 'g MapChart \<times> Event list" where
  "dispatchGeoBounds s =
     (if dispatchBounds s
      then (s\<lparr>dispatchBounds := False\<rparr>, if eventsEnabled s then [Geoboundschanged] else [])
      else (s, []))"

text \<open>\<open>_prepareChildren\<close>, with the events it dispatches.\<close>

definition prepareChildren :: "'g MapChart \<Rightarrow> 'g MapChart \<times> Event list" where
  "prepareChildren s =
     dispatchGeoBounds
       (rotationChanged (translateChanged (zoomLevelChanged
          (sizeChanged (geometriesChanged (projectionChanged s))))))"

definition updateChildren :: "'g MapChart \<Rightarrow> 'g MapChart" where
  "updateChildren s =
     (case rawInvert (projection s) of
        Some f \<Rightarrow> s\<lparr>centerLocation :=
                     projectInvert (projection s) f (innerWidth s / 2, innerHeight s / 2)\<rparr>
      | None \<Rightarrow> s)"

definition clearDirty :: "'g MapChart \<Rightarrow> 'g MapChart" where
  "clearDirty s = s\<lparr>dirty := {}, privateDirty := {}, dirtyGeometries := False\<rparr>"

text \<open>
  One reconciliation pass: the framework calls \<open>_prepareChildren\<close>, then
  \<open>_updateChildren\<close>, then \<open>_clearDirty\<close>.
\<close>

definition reconcile :: "'g MapChart \<Rightarrow> 'g MapChart \<times> Event list" where
  "reconcile s = (let r = prepareChildren s in (clearDirty (updateChildren (fst r)), snd r))"

section \<open>Zooming to geographic bounds\<close>

text \<open>
  \<open>zoomToGeoBounds(geoBounds, duration)\<close>. The source assigns to the fields of its
  argument, so the bounds object as the call leaves it is returned with the chart.
\<close>

definition normalizeBounds :: "GeoBounds \<Rightarrow> GeoBounds" where
  "normalizeBounds gb =
     (if gb_right gb < gb_left gb then gb\<lparr>gb_right := 180, gb_left := -180\<rparr> else gb)"

definition zoomToGeoBounds ::
  "'g MapChart \<Rightarrow> GeoBounds \<Rightarrow> real option \<Rightarrow> 'g MapChart \<times> GeoBounds" where
  "zoomToGeoBounds s gb0 duration =
     (let gb = normalizeBounds gb0;
          P = projection s;
          mb = pathBounds P (p_scale P) (p_translate P) (p_rotate P) (geometryColection s);
          p0 = convert s \<lparr>longitude = gb_left gb, latitude = gb_top gb\<rparr>;
          p1 = convert s \<lparr>longitude = gb_right gb, latitude = gb_bottom gb\<rparr>;
          p0 = (if py p0 < snd (fst mb) then p0\<lparr>py := snd (fst mb)\<rparr> else p0);
          p1 = (if py p1 > snd (snd mb) then p1\<lparr>py := snd (snd mb)\<rparr> else p1);
          zl = get s ZoomLevel 1;
          left = px p0;
          right = px p1;
          top = py p0;
          bottom = py p1;
          zoomLevel = 9 / 10 * min (seriesInnerWidth s / (right - left) * zl)
                                   (seriesInnerHeight s / (bottom - top) * zl);
          x = left + (right - left) / 2;
          y = top + (bottom - top) / 2;
          geoPoint = invert s \<lparr>px = x, py = y\<rparr>
      in (zoomToGeoPoint s geoPoint zoomLevel True duration, gb))"

section \<open>Gestures\<close>

text \<open>
  A JavaScript array that is filled by index may have holes: its elements are options
  here, its length is one more than the last index that was assigned, and reading
  beyond the length gives \<open>undefined\<close>.
\<close>

definition arrayLength :: "'a option list \<Rightarrow> nat" where
  "arrayLength xs = length (dropWhile (\<lambda>v. v = None) (rev xs))"

definition arrayGet :: "'a option list \<Rightarrow> nat \<Rightarrow> 'a option" where
  "arrayGet xs i = (if i < length xs then xs ! i else None)"

text \<open>\<open>Math.hypot\<close> of two numbers.\<close>

definition hypot :: "real \<Rightarrow> real \<Rightarrow> real" where
  "hypot a b = sqrt (a * a + b * b)"

text \<open>
  \<open>_handlePinch\<close>. \<open>_downTranslateX || 0\<close> is 0 when the snapshot is undefined.
\<close>

definition handlePinch :: "'g MapChart \<Rightarrow> 'g MapChart" where
  "handlePinch s =
     (let downPts = map (\<lambda>kp. Some (snd kp)) (downPoints s);
          movePts = map (\<lambda>kp. movePoints s (fst kp)) (downPoints s)
      in if arrayLength downPts > 1 \<and> arrayLength movePts > 1 then
           (case (arrayGet downPts 0, arrayGet downPts 1, arrayGet movePts 0, arrayGet movePts 1) of
              (Some d0, Some d1, Some m0, Some m1) \<Rightarrow>
                (let downPoint0 = toLocal s d0;
                     downPoint1 = toLocal s d1;
                     movePoint0 = toLocal s m0;
                     movePoint1 = toLocal s m1;
                     initialDistance = hypot (px downPoint1 - px downPoint0) (py downPoint1 - py downPoint0);
                     currentDistance = hypot (px movePoint1 - px movePoint0) (py movePoint1 - py movePoint0);
                     level = currentDistance / initialDistance * downZoomLevel s;
                     moveCenter = \<lparr>px = px movePoint0 + (px movePoint1 - px movePoint0) / 2,
                                   py = py movePoint0 + (py movePoint1 - py movePoint0) / 2\<rparr>;
                     downCenter = \<lparr>px = px downPoint0 + (px downPoint1 - px downPoint0) / 2,
                                   py = py downPoint0 + (py downPoint1 - py downPoint0) / 2\<rparr>;
                     tx = (case downTranslateX s of None \<Rightarrow> 0 | Some v \<Rightarrow> v);
                     ty = (case downTranslateY s of None \<Rightarrow> 0 | Some v \<Rightarrow> v);
                     zoomLevel = downZoomLevel s;
                     xx = px moveCenter - (px moveCenter - tx - px moveCenter + px downCenter) / zoomLevel * level;
                     yy = py moveCenter - (py moveCenter - ty - py moveCenter + py downCenter) / zoomLevel * level
                 in set_setting (set_setting (set_setting s ZoomLevel level) TranslateX xx) TranslateY yy)
            | _ \<Rightarrow> s)
         else s)"

text \<open>
  The limits that \<open>_handleChartMove\<close> computes for the translate of a drag: the lower
  one, which it applies with \<open>Math.max\<close>, and the upper one, which it applies with
  \<open>Math.min\<close>.
\<close>

definition panLimitsX :: "'g MapChart \<Rightarrow> real \<times> real" where
  "panLimitsX s =
     (let bounds = mapBounds s;
          w = width s;
          ww = fst (snd bounds) - fst (fst bounds);
          zoomLevel = get s ZoomLevel 1;
          cx = (px (centroid s) - w / 2) * zoomLevel;
          maxPanOut = get s MaxPanOut 0;
          xs = (if w < ww * zoomLevel then - 1 else 1)
      in (cx + xs * (- 1) * (w - ww) / 2 * zoomLevel + w - (w / 2) * zoomLevel - ww * maxPanOut,
          cx + xs * (w - ww) / 2 * zoomLevel + (w / 2) * zoomLevel + ww * maxPanOut))"

definition panLimitsY :: "'g MapChart \<Rightarrow> real \<times> real" where
  "panLimitsY s =
     (let bounds = mapBounds s;
          h = height s;
          hh = snd (snd bounds) - snd (fst bounds);
          zoomLevel = get s ZoomLevel 1;
          cy = (py (centroid s) - h / 2) * zoomLevel;
          maxPanOut = get s MaxPanOut 0;
          ys = (if h < hh * zoomLevel then - 1 else 1)
      in (cy + ys * (- 1) * (h - hh) / 2 * zoomLevel + h - (h / 2) * zoomLevel - hh * maxPanOut,
          cy + ys * (h - hh) / 2 * zoomLevel + (h / 2) * zoomLevel + hh * maxPanOut))"

text \<open>A pointer id, as a condition: \<open>undefined\<close> and 0 are false.\<close>

definition truthy :: "nat option \<Rightarrow> bool" where
  "truthy i = (case i of None \<Rightarrow> False | Some n \<Rightarrow> n \<noteq> 0)"

text \<open>
  \<open>_handleChartMove\<close> for a move of the pointer \<open>pointerId\<close> to \<open>point\<close>;
  \<open>downPoint\<close> and \<open>downPointId\<close> are what the container's \<open>_getDownPoint\<close> and
  \<open>_getDownPointId\<close> return. The branches for panning by rotation write only the
  rotation settings and are left out.
\<close>

definition handleChartMove ::
  "'g MapChart \<Rightarrow> IPoint \<Rightarrow> nat option \<Rightarrow> IPoint option \<Rightarrow> nat option \<Rightarrow> 'g MapChart" where
  "handleChartMove s point pointerId downPoint0 downPointId =
     (let s1 = (case pointerId of
                  Some n \<Rightarrow> if pinchZoom s \<and> n \<noteq> 0
                            then s\<lparr>movePoints := (movePoints s)(n \<mapsto> point)\<rparr> else s
                | None \<Rightarrow> s)
      in if pinchZoom s \<and> truthy pointerId \<and> length (downPoints s1) > 1 then handlePinch s1
         else if truthy downPointId \<and> truthy pointerId \<and> pointerId \<noteq> downPointId then s1
         else
           (case downPoint0 of
              None \<Rightarrow> s1
            | Some dp \<Rightarrow>
                if panX s1 \<noteq> Some PanXNone \<or> panY s1 \<noteq> Some PanYNone then
                  (let local = toLocal s1 point;
                       downPoint = toLocal s1 dp
                   in if hypot (px downPoint - px local) (py downPoint - py local) > 5 then
                        (case (downTranslateX s1, downTranslateY s1) of
                           (Some x0, Some y0) \<Rightarrow>
                             (let x = (if panX s1 = Some PanXTranslateX
                                       then x0 + (px local - px downPoint) else x0);
                                  y = (if panY s1 = Some PanYTranslateY
                                       then y0 + (py local - py downPoint) else y0);
                                  x = min x (snd (panLimitsX s1));
                                  x = max x (fst (panLimitsX s1));
                                  y = min y (snd (panLimitsY s1));
                                  y = max y (fst (panLimitsY s1))
                              in set_setting (set_setting s1 TranslateX x) TranslateY y)
                         | _ \<Rightarrow> s1)
                      else s1)
                else s1))"

section \<open>Sequences of changes and passes\<close>

text \<open>
  What happens to a chart between two passes: a setting is set, the projection is
  replaced, the chart is resized, or the series change their geometries and call
  \<open>markDirtyGeometries\<close>.
\<close>

datatype 'g Change =
    SetSetting Key real
  | SetProjection "'g GeoProjection"
  | Resize real real
  | SetGeometries "'g list list"

fun applyChange :: "'g MapChart \<Rightarrow> 'g Change \<Rightarrow> 'g MapChart" where
  "applyChange s (SetSetting k v) = set_setting s k v"
| "applyChange s (SetProjection P) = s\<lparr>projection := P, dirty := insert Projection (dirty s)\<rparr>"
| "applyChange s (Resize w h) =
     s\<lparr>width := w, height := h, privateDirty := insert Width (insert Height (privateDirty s))\<rparr>"
| "applyChange s (SetGeometries gs) = s\<lparr>series := gs, dirtyGeometries := True\<rparr>"

text \<open>
  A run: each element of the list is the changes made before one pass; the result is
  the final chart and the events of each pass.
\<close>

fun run :: "'g MapChart \<Rightarrow> 'g Change list list \<Rightarrow> 'g MapChart \<times> Event list list" where
  "run s [] = (s, [])"
| "run s (cs # rest) =
     (let r = reconcile (foldl applyChange s cs);
          r' = run (fst r) rest
      in (fst r', snd r # snd r'))"

section \<open>Example charts\<close>

text \<open>
  An equirectangular projection of the whole world, one degree to one unit, defined
  for latitudes between -90 and 90, with the fit of the world into a viewport by its
  width.
\<close>

definition plateCarree :: "unit GeoProjection" where
  "plateCarree =
     \<lparr>raw = (\<lambda>r ll. if \<bar>snd ll\<bar> \<le> 90 then Some (fst ll, - snd ll) else None),
      rawInvert = Some (\<lambda>r uv. if \<bar>snd uv\<bar> \<le> 90 then Some (fst uv, - snd uv) else None),
      canRotate = False,
      fitSize = (\<lambda>size r gs. (fst size / 360, (fst size / 2, snd size / 2))),
      pathBounds = (\<lambda>k t r gs. ((fst t - 180 * k, snd t - 90 * k), (fst t + 180 * k, snd t + 90 * k))),
      p_scale = 20 / 9,
      p_translate = (400, 300),
      p_rotate = (0, 0, 0)\<rparr>"

text \<open>
  A chart of 800 by 600 pixels with one series that holds the world, at zoom level 1,
  after a pass.
\<close>

definition worldChart :: "unit MapChart" where
  "worldChart =
     \<lparr>settings = [ZoomLevel \<mapsto> 1, TranslateX \<mapsto> 400, TranslateY \<mapsto> 300, MaxPanOut \<mapsto> 4 / 10],
      dirty = {},
      privateDirty = {},
      projection = plateCarree,
      panX = Some PanXTranslateX,
      panY = Some PanYTranslateY,
      pinchZoom = True,
      mapScale = 20 / 9,
      width = 800,
      height = 600,
      seriesInnerWidth = 800,
      seriesInnerHeight = 600,
      series = [[()]],
      d3geoBounds = (\<lambda>gs. ((- 180, - 90), (180, 90))),
      getGeoCentroid = (\<lambda>gs. \<lparr>longitude = 0, latitude = 0\<rparr>),
      toLocal = (\<lambda>p. p),
      eventsEnabled = True,
      downTranslateX = None,
      downTranslateY = None,
      downZoomLevel = 1,
      movePoints = Map.empty,
      downPoints = [],
      dirtyGeometries = False,
      geometryColection = [()],
      centerLocation = Some (0, 0),
      za = None,
      txa = None,
      tya = None,
      mapBounds = ((0, 100), (800, 500)),
      geoCentroid = \<lparr>longitude = 0, latitude = 0\<rparr>,
      centroid = \<lparr>px = 400, py = 300\<rparr>,
      geoBounds = \<lparr>gb_left = - 180, gb_right = 180, gb_top = 90, gb_bottom = - 90\<rparr>,
      prevGeoBounds = \<lparr>gb_left = - 180, gb_right = 180, gb_top = 90, gb_bottom = - 90\<rparr>,
      dispatchBounds = False\<rparr>"

text \<open>The same chart with a projection that has no \<open>invert\<close>.\<close>

definition noInvertChart :: "unit MapChart" where
  "noInvertChart = worldChart\<lparr>projection := plateCarree\<lparr>rawInvert := None\<rparr>\<rparr>"

text \<open>The chart at zoom level 2, after a pass.\<close>

definition zoomedChart :: "unit MapChart" where
  "zoomedChart =
     worldChart
       \<lparr>settings := [ZoomLevel \<mapsto> 2, TranslateX \<mapsto> 400, TranslateY \<mapsto> 300, MaxPanOut \<mapsto> 4 / 10],
        projection := plateCarree\<lparr>p_scale := 40 / 9\<rparr>\<rparr>"

text \<open>
  The chart at zoom level 2 with two pointers down at (100, 300) and (300, 300), which
  have moved to (50, 300) and (350, 300).
\<close>

definition pinchChart :: "unit MapChart" where
  "pinchChart =
     zoomedChart
       \<lparr>downTranslateX := Some 400,
        downTranslateY := Some 300,
        downZoomLevel := 2,
        movePoints := [1 \<mapsto> \<lparr>px = 50, py = 300\<rparr>, 2 \<mapsto> \<lparr>px = 350, py = 300\<rparr>],
        downPoints := [(1, \<lparr>px = 100, py = 300\<rparr>), (2, \<lparr>px = 300, py = 300\<rparr>)]\<rparr>"

text \<open>
  The chart at zoom level 1 with two pointers down at (100, 300) and (300, 300); the
  first has moved to (600, 300).
\<close>

definition twoFingerChart :: "unit MapChart" where
  "twoFingerChart =
     worldChart
       \<lparr>downTranslateX := Some 400,
        downTranslateY := Some 300,
        downZoomLevel := 1,
        movePoints := [1 \<mapsto> \<lparr>px = 600, py = 300\<rparr>],
        downPoints := [(1, \<lparr>px = 100, py = 300\<rparr>), (2, \<lparr>px = 300, py = 300\<rparr>)]\<rparr>"

text \<open>
  The chart at zoom level 2 after a series has changed its geometries and the next
  pass has run.
\<close>

definition refitChart :: "unit MapChart" where
  "refitChart = fst (run zoomedChart [[SetGeometries [[(), ()]]]])"

text \<open>
  That chart with two pointers down at (100, 300) and (300, 300), the snapshots taken
  from its settings as \<open>_handleChartDown\<close> takes them, and the pointers moved to
  (50, 300) and (350, 300).
\<close>

definition refitPinchChart :: "unit MapChart" where
  "refitPinchChart =
     refitChart
       \<lparr>downTranslateX := settings refitChart TranslateX,
        downTranslateY := settings refitChart TranslateY,
        downZoomLevel := get refitChart ZoomLevel 1,
        movePoints := [1 \<mapsto> \<lparr>px = 50, py = 300\<rparr>, 2 \<mapsto> \<lparr>px = 350, py = 300\<rparr>],
        downPoints := [(1, \<lparr>px = 100, py = 300\<rparr>), (2, \<lparr>px = 300, py = 300\<rparr>)]\<rparr>"

text \<open>The chart before any series has a geometry.\<close>

definition emptyChart :: "unit MapChart" where
  "emptyChart =
     worldChart
       \<lparr>series := [],
        geometryColection := [],
        geoBounds := \<lparr>gb_left = 0, gb_right = 0, gb_top = 0, gb_bottom = 0\<rparr>,
        prevGeoBounds := \<lparr>gb_left = 0, gb_right = 0, gb_top = 0, gb_bottom = 0\<rparr>\<rparr>"

section \<open>Predicates on charts and changes\<close>

text \<open>
  Between two passes the dispatch flag is down, and the snapshot of the previous
  bounds holds the rounded bounds of the geometry collection, once there is one.
\<close>

definition boundsRecorded :: "'g MapChart \<Rightarrow> bool" where
  "boundsRecorded s =
     (\<not> dispatchBounds s
      \<and> (geometryColection s = []
         \<or> prevGeoBounds s = roundBounds (getGeoBounds (d3geoBounds s) (geometryColection s))))"

text \<open>A change that brings no geometry.\<close>

fun noGeometry :: "'g Change \<Rightarrow> bool" where
  "noGeometry (SetGeometries gs) = (concat gs = [])"
| "noGeometry _ = True"

section \<open>Settings and stages of the pass\<close>

lemma get_cong_settings: "settings s = settings t \<Longrightarrow> get s k d = get t k d"
  by (simp add: get_def)

lemma zoomLevelChanged_fields:
  "p_scale (projection (zoomLevelChanged s)) =
     (if ZoomLevel \<in> dirty s then mapScale s * get s ZoomLevel 1 else p_scale (projection s))"
  "p_translate (projection (zoomLevelChanged s)) = p_translate (projection s)"
  "p_rotate (projection (zoomLevelChanged s)) = p_rotate (projection s)"
  "raw (projection (zoomLevelChanged s)) = raw (projection s)"
  "canRotate (projection (zoomLevelChanged s)) = canRotate (projection s)"
  "settings (zoomLevelChanged s) = settings s"
  "dirty (zoomLevelChanged s) = dirty s"
  "mapScale (zoomLevelChanged s) = mapScale s"
  "width (zoomLevelChanged s) = width s"
  "height (zoomLevelChanged s) = height s"
  by (simp_all add: zoomLevelChanged_def isDirty_def)

lemma translateChanged_fields:
  "p_scale (projection (translateChanged s)) = p_scale (projection s)"
  "p_translate (projection (translateChanged s)) =
     (if TranslateX \<in> dirty s \<or> TranslateY \<in> dirty s
      then (get s TranslateX (width s / 2), get s TranslateY (height s / 2))
      else p_translate (projection s))"
  "p_rotate (projection (translateChanged s)) = p_rotate (projection s)"
  "raw (projection (translateChanged s)) = raw (projection s)"
  "canRotate (projection (translateChanged s)) = canRotate (projection s)"
  "settings (translateChanged s) = settings s"
  "dirty (translateChanged s) = dirty s"
  "mapScale (translateChanged s) = mapScale s"
  "width (translateChanged s) = width s"
  "height (translateChanged s) = height s"
  by (simp_all add: translateChanged_def isDirty_def)

lemma rotationChanged_id:
  "RotationX \<notin> dirty s \<Longrightarrow> RotationY \<notin> dirty s \<Longrightarrow> RotationZ \<notin> dirty s
     \<Longrightarrow> rotationChanged s = s"
  by (simp add: rotationChanged_def isDirty_def)

lemma quiet_stages:
  assumes "Projection \<notin> dirty s" "\<not> dirtyGeometries s" "Width \<notin> privateDirty s"
    "Height \<notin> privateDirty s" "PaddingTop \<notin> dirty s" "PaddingLeft \<notin> dirty s"
  shows "sizeChanged (geometriesChanged (projectionChanged s)) = s"
  using assms
  by (simp add: sizeChanged_def geometriesChanged_def projectionChanged_def isDirty_def
      isPrivateDirty_def)

lemma reconcile_frame:
  "projection (fst (reconcile s)) = projection (fst (prepareChildren s))"
  "settings (fst (reconcile s)) = settings (fst (prepareChildren s))"
  "mapScale (fst (reconcile s)) = mapScale (fst (prepareChildren s))"
  "width (fst (reconcile s)) = width (fst (prepareChildren s))"
  "height (fst (reconcile s)) = height (fst (prepareChildren s))"
  by (simp_all add: reconcile_def clearDirty_def updateChildren_def Let_def split: option.split)

lemma dispatchGeoBounds_frame:
  "projection (fst (dispatchGeoBounds s)) = projection s"
  "settings (fst (dispatchGeoBounds s)) = settings s"
  "mapScale (fst (dispatchGeoBounds s)) = mapScale s"
  "width (fst (dispatchGeoBounds s)) = width s"
  "height (fst (dispatchGeoBounds s)) = height s"
  by (simp_all add: dispatchGeoBounds_def)


lemma set_setting_settings: "settings (set_setting s k v) = (settings s)(k \<mapsto> v)"
  by (auto simp: set_setting_def)

lemma set_setting_dirty:
  "dirty (set_setting s k v) = (if settings s k = Some v then dirty s else insert k (dirty s))"
  by (simp add: set_setting_def)

lemma set_setting_frame:
  "projection (set_setting s k v) = projection s"
  "mapScale (set_setting s k v) = mapScale s"
  "width (set_setting s k v) = width s"
  "height (set_setting s k v) = height s"
  "privateDirty (set_setting s k v) = privateDirty s"
  "dirtyGeometries (set_setting s k v) = dirtyGeometries s"
  by (simp_all add: set_setting_def)

text \<open>The chart after the three animations of a zoom have reached their targets.\<close>

lemma completed_zoom:
  fixes s :: "'g MapChart" and p :: IPoint and level :: real and center :: bool
    and duration :: "real option"
  defines "t \<equiv> completeAnimations (zoomToPoint s p level center duration)"
  defines "lv \<equiv> (if level \<noteq> 0 then fitToRange level (get s MinZoomLevel 1) (get s MaxZoomLevel 32)
                  else level)"
  defines "xx \<equiv> (if center then width s / 2 else px p) - (px p - get s TranslateX 0) / get s ZoomLevel 1 * lv"
  defines "yy \<equiv> (if center then height s / 2 else py p) - (py p - get s TranslateY 0) / get s ZoomLevel 1 * lv"
  shows "settings t = (settings s)(TranslateX \<mapsto> xx, TranslateY \<mapsto> yy, ZoomLevel \<mapsto> lv)"
    and "dirty t = dirty s \<union> {k. (k = TranslateX \<and> settings s k \<noteq> Some xx)
                             \<or> (k = TranslateY \<and> settings s k \<noteq> Some yy)
                             \<or> (k = ZoomLevel \<and> settings s k \<noteq> Some lv)}"
    and "projection t = projection s" and "mapScale t = mapScale s"
    and "width t = width s" and "height t = height s"
    and "privateDirty t = privateDirty s" and "dirtyGeometries t = dirtyGeometries s"
proof -
  let ?z = "s\<lparr>txa := Some (Animation TranslateX xx (case duration of None \<Rightarrow> get s AnimationDuration 0 | Some d \<Rightarrow> d)),
              tya := Some (Animation TranslateY yy (case duration of None \<Rightarrow> get s AnimationDuration 0 | Some d \<Rightarrow> d)),
              za := Some (Animation ZoomLevel lv (case duration of None \<Rightarrow> get s AnimationDuration 0 | Some d \<Rightarrow> d))\<rparr>"
  have z: "zoomToPoint s p level center duration = ?z"
    by (simp add: zoomToPoint_def Let_def lv_def xx_def yy_def)
  let ?u = "set_setting (set_setting (set_setting ?z TranslateX xx) TranslateY yy) ZoomLevel lv"
  have t: "t = ?u\<lparr>za := None, txa := None, tya := None\<rparr>"
    unfolding t_def z by (simp add: completeAnimations_def complete_def set_setting_frame set_setting_def)
  show "settings t = (settings s)(TranslateX \<mapsto> xx, TranslateY \<mapsto> yy, ZoomLevel \<mapsto> lv)"
    unfolding t by (simp add: set_setting_settings)
  show "dirty t = dirty s \<union> {k. (k = TranslateX \<and> settings s k \<noteq> Some xx)
                             \<or> (k = TranslateY \<and> settings s k \<noteq> Some yy)
                             \<or> (k = ZoomLevel \<and> settings s k \<noteq> Some lv)}"
    unfolding t by (auto simp add: set_setting_settings set_setting_dirty)
  show "projection t = projection s" "mapScale t = mapScale s" "width t = width s"
    "height t = height s" "privateDirty t = privateDirty s" "dirtyGeometries t = dirtyGeometries s"
    unfolding t by (simp_all add: set_setting_frame)
qed


lemma quiet_pass_projection:
  assumes "Projection \<notin> dirty s" "\<not> dirtyGeometries s" "Width \<notin> privateDirty s"
    "Height \<notin> privateDirty s" "PaddingTop \<notin> dirty s" "PaddingLeft \<notin> dirty s"
    "RotationX \<notin> dirty s" "RotationY \<notin> dirty s" "RotationZ \<notin> dirty s"
  shows "p_scale (projection (fst (reconcile s))) =
           (if ZoomLevel \<in> dirty s then mapScale s * get s ZoomLevel 1 else p_scale (projection s))"
    and "p_translate (projection (fst (reconcile s))) =
           (if TranslateX \<in> dirty s \<or> TranslateY \<in> dirty s
            then (get s TranslateX (width s / 2), get s TranslateY (height s / 2))
            else p_translate (projection s))"
    and "p_rotate (projection (fst (reconcile s))) = p_rotate (projection s)"
    and "raw (projection (fst (reconcile s))) = raw (projection s)"
    and "settings (fst (reconcile s)) = settings s"
    and "mapScale (fst (reconcile s)) = mapScale s"
proof -
  have a: "sizeChanged (geometriesChanged (projectionChanged s)) = s"
    using assms by (simp add: quiet_stages)
  have b: "rotationChanged (translateChanged (zoomLevelChanged s)) = translateChanged (zoomLevelChanged s)"
    using assms by (simp add: rotationChanged_id translateChanged_fields zoomLevelChanged_fields)
  have c: "fst (prepareChildren s) = fst (dispatchGeoBounds (translateChanged (zoomLevelChanged s)))"
    by (simp add: prepareChildren_def a b)
  have g: "get (zoomLevelChanged s) = get s"
    by (intro ext get_cong_settings) (simp add: zoomLevelChanged_fields)
  show "p_scale (projection (fst (reconcile s))) =
           (if ZoomLevel \<in> dirty s then mapScale s * get s ZoomLevel 1 else p_scale (projection s))"
    by (simp add: reconcile_frame c dispatchGeoBounds_frame translateChanged_fields
        zoomLevelChanged_fields)
  show "p_translate (projection (fst (reconcile s))) =
           (if TranslateX \<in> dirty s \<or> TranslateY \<in> dirty s
            then (get s TranslateX (width s / 2), get s TranslateY (height s / 2))
            else p_translate (projection s))"
    by (simp add: reconcile_frame c dispatchGeoBounds_frame translateChanged_fields
        zoomLevelChanged_fields g)
  show "p_rotate (projection (fst (reconcile s))) = p_rotate (projection s)"
    by (simp add: reconcile_frame c dispatchGeoBounds_frame translateChanged_fields
        zoomLevelChanged_fields)
  show "raw (projection (fst (reconcile s))) = raw (projection s)"
    by (simp add: reconcile_frame c dispatchGeoBounds_frame translateChanged_fields
        zoomLevelChanged_fields)
  show "settings (fst (reconcile s)) = settings s"
    by (simp add: reconcile_frame c dispatchGeoBounds_frame translateChanged_fields
        zoomLevelChanged_fields)
  show "mapScale (fst (reconcile s)) = mapScale s"
    by (simp add: reconcile_frame c dispatchGeoBounds_frame translateChanged_fields
        zoomLevelChanged_fields)
qed

text \<open>The definitions that evaluate a pass on a concrete chart.\<close>

lemmas pass_defs = reconcile_def prepareChildren_def projectionChanged_def geometriesChanged_def
  sizeChanged_def zoomLevelChanged_def translateChanged_def rotationChanged_def
  dispatchGeoBounds_def updateChildren_def clearDirty_def isDirty_def isPrivateDirty_def

section \<open>The zoom anchor\<close>

text \<open>
  The translate that \<open>zoomToPoint\<close> computes is right for a projection that is in
  step with the settings. Let the chart be clean after a pass, the scale of its
  projection \<open>mapScale\<close> times the zoom level, its translate \<open>translateX\<close>,
  \<open>translateY\<close>, and \<open>mapScale\<close> and the zoom level not zero. Let \<open>p\<close> be a screen
  point that the projection inverts: \<open>g = invert(p)\<close> is projected back to \<open>p\<close>. After
  \<open>zoomToPoint(p, level, center)\<close>, the completion of its three animations and the
  next pass, \<open>convert(g)\<close> is \<open>p\<close>, or the centre of the viewport when \<open>center\<close> is
  true, and the zoom level is the target of the zoom animation.
\<close>

lemma zoomToPoint_anchor_in_step:
  fixes s :: "'g MapChart" and p :: IPoint and level :: real and center :: bool
    and duration :: "real option"
  defines "g \<equiv> invert s p"
  defines "s' \<equiv> fst (reconcile (completeAnimations (zoomToPoint s p level center duration)))"
  assumes clean: "dirty s = {}" "privateDirty s = {}" "\<not> dirtyGeometries s"
    and sync: "p_scale (projection s) = mapScale s * get s ZoomLevel 1"
      "p_translate (projection s) = (get s TranslateX 0, get s TranslateY 0)"
    and nz: "mapScale s \<noteq> 0" "get s ZoomLevel 1 \<noteq> 0"
    and under: "project (projection s) (longitude g, latitude g) = Some (px p, py p)"
  shows "convert s' g = (if center then \<lparr>px = width s / 2, py = height s / 2\<rparr> else p)
         \<and> settings s' ZoomLevel =
             Some (if level \<noteq> 0
                   then fitToRange level (get s MinZoomLevel 1) (get s MaxZoomLevel 32)
                   else level)"
proof -
  define t where "t = completeAnimations (zoomToPoint s p level center duration)"
  define lv where "lv = (if level \<noteq> 0
      then fitToRange level (get s MinZoomLevel 1) (get s MaxZoomLevel 32) else level)"
  define cx where "cx = (if center then width s / 2 else px p)"
  define cy where "cy = (if center then height s / 2 else py p)"
  define xx where "xx = cx - (px p - get s TranslateX 0) / get s ZoomLevel 1 * lv"
  define yy where "yy = cy - (py p - get s TranslateY 0) / get s ZoomLevel 1 * lv"
  note cz = completed_zoom [of s p level center duration, folded t_def lv_def cx_def cy_def,
      folded xx_def yy_def]
  have st: "settings t = (settings s)(TranslateX \<mapsto> xx, TranslateY \<mapsto> yy, ZoomLevel \<mapsto> lv)"
    by (rule cz)
  have dt: "dirty t = {k. (k = TranslateX \<and> settings s k \<noteq> Some xx)
                        \<or> (k = TranslateY \<and> settings s k \<noteq> Some yy)
                        \<or> (k = ZoomLevel \<and> settings s k \<noteq> Some lv)}"
    using cz(2) clean by simp
  have ft: "projection t = projection s" "mapScale t = mapScale s" "width t = width s"
    "height t = height s" "privateDirty t = {}" "\<not> dirtyGeometries t"
    using cz(3-8) clean by simp_all
  have gt: "get t ZoomLevel 1 = lv" "\<And>d. get t TranslateX d = xx" "\<And>d. get t TranslateY d = yy"
    by (simp_all add: get_def st)
  have q: "Projection \<notin> dirty t" "\<not> dirtyGeometries t" "Width \<notin> privateDirty t"
    "Height \<notin> privateDirty t" "PaddingTop \<notin> dirty t" "PaddingLeft \<notin> dirty t"
    "RotationX \<notin> dirty t" "RotationY \<notin> dirty t" "RotationZ \<notin> dirty t"
    by (simp_all add: dt ft)
  note qp = quiet_pass_projection [OF q, folded t_def]
  have s': "s' = fst (reconcile t)" by (simp add: s'_def t_def)
  have scale: "p_scale (projection s') = mapScale s * lv"
  proof (cases "ZoomLevel \<in> dirty t")
    case True
    then show ?thesis by (simp add: s' qp(1) ft gt)
  next
    case False
    then have "settings s ZoomLevel = Some lv" by (simp add: dt)
    then have "get s ZoomLevel 1 = lv" by (simp add: get_def)
    with False show ?thesis by (simp add: s' qp(1) ft sync)
  qed
  have trans: "p_translate (projection s') = (xx, yy)"
  proof (cases "TranslateX \<in> dirty t \<or> TranslateY \<in> dirty t")
    case True
    then show ?thesis by (simp add: s' qp(2) gt)
  next
    case False
    then have "settings s TranslateX = Some xx" "settings s TranslateY = Some yy"
      by (simp_all add: dt)
    then have "get s TranslateX 0 = xx" "get s TranslateY 0 = yy" by (simp_all add: get_def)
    with False show ?thesis by (simp add: s' qp(2) ft sync)
  qed
  have rest: "p_rotate (projection s') = p_rotate (projection s)"
    "raw (projection s') = raw (projection s)"
    by (simp_all add: s' qp ft)
  obtain uv where uv: "raw (projection s) (p_rotate (projection s)) (longitude g, latitude g) = Some uv"
    and ux: "get s TranslateX 0 + mapScale s * get s ZoomLevel 1 * fst uv = px p"
    and uy: "get s TranslateY 0 + mapScale s * get s ZoomLevel 1 * snd uv = py p"
    using under by (auto simp add: project_def sync split: option.splits)
  have "px p - get s TranslateX 0 = mapScale s * get s ZoomLevel 1 * fst uv"
    using ux by simp
  then have x: "xx + mapScale s * lv * fst uv = cx"
    using nz by (simp add: xx_def)
  have "py p - get s TranslateY 0 = mapScale s * get s ZoomLevel 1 * snd uv"
    using uy by simp
  then have y: "yy + mapScale s * lv * snd uv = cy"
    using nz by (simp add: yy_def)
  have "convert s' g = \<lparr>px = cx, py = cy\<rparr>"
    by (simp add: convert_def project_def scale trans rest uv x y)
  moreover have "settings s' ZoomLevel = Some lv"
    by (simp add: s' qp(5) st)
  ultimately show ?thesis
    by (simp add: cx_def cy_def lv_def)
qed

text \<open>
  On the chart of 800 by 600 pixels at zoom level 1, which is in step,
  \<open>zoomToPoint({x: 400, y: 300}, 4, true)\<close> gives zoom level 4 and leaves the
  geographic point that was under (400, 300) at (400, 300).
\<close>

lemma zoomToPoint_anchor_in_step_example:
  "dirty worldChart = {} \<and> privateDirty worldChart = {} \<and> \<not> dirtyGeometries worldChart
   \<and> p_scale (projection worldChart) = mapScale worldChart * get worldChart ZoomLevel 1
   \<and> p_translate (projection worldChart) = (get worldChart TranslateX 0, get worldChart TranslateY 0)
   \<and> mapScale worldChart \<noteq> 0 \<and> get worldChart ZoomLevel 1 \<noteq> 0
   \<and> width worldChart = 800 \<and> height worldChart = 600
   \<and> invert worldChart \<lparr>px = 400, py = 300\<rparr> = \<lparr>longitude = 0, latitude = 0\<rparr>
   \<and> convert worldChart \<lparr>longitude = 0, latitude = 0\<rparr> = \<lparr>px = 400, py = 300\<rparr>
   \<and> convert (fst (reconcile (completeAnimations
          (zoomToPoint worldChart \<lparr>px = 400, py = 300\<rparr> 4 True None))))
        \<lparr>longitude = 0, latitude = 0\<rparr> = \<lparr>px = 400, py = 300\<rparr>
   \<and> settings (fst (reconcile (completeAnimations
          (zoomToPoint worldChart \<lparr>px = 400, py = 300\<rparr> 4 True None)))) ZoomLevel = Some 4"
proof -
  have g: "invert worldChart \<lparr>px = 400, py = 300\<rparr> = \<lparr>longitude = 0, latitude = 0\<rparr>"
    by (simp add: invert_def projectInvert_def worldChart_def plateCarree_def)
  have c: "dirty worldChart = {}" "privateDirty worldChart = {}" "\<not> dirtyGeometries worldChart"
    by (simp_all add: worldChart_def)
  have y: "p_scale (projection worldChart) = mapScale worldChart * get worldChart ZoomLevel 1"
    "p_translate (projection worldChart) = (get worldChart TranslateX 0, get worldChart TranslateY 0)"
    by (simp_all add: worldChart_def plateCarree_def get_def)
  have n: "mapScale worldChart \<noteq> 0" "get worldChart ZoomLevel 1 \<noteq> 0"
    by (simp_all add: worldChart_def get_def)
  have u: "project (projection worldChart)
             (longitude (invert worldChart \<lparr>px = 400, py = 300\<rparr>),
              latitude (invert worldChart \<lparr>px = 400, py = 300\<rparr>))
           = Some (px \<lparr>px = 400, py = 300\<rparr>, py \<lparr>px = 400, py = 300\<rparr>)"
    by (simp add: g) (simp add: project_def worldChart_def plateCarree_def)
  have w: "width worldChart = 800" "height worldChart = 600"
    "get worldChart MinZoomLevel 1 = 1" "get worldChart MaxZoomLevel 32 = 32"
    by (simp_all add: worldChart_def get_def)
  have v: "convert worldChart \<lparr>longitude = 0, latitude = 0\<rparr> = \<lparr>px = 400, py = 300\<rparr>"
    by (simp add: convert_def project_def worldChart_def plateCarree_def)
  from zoomToPoint_anchor_in_step [OF c y n u, of 4 True None] show ?thesis
    using c y n by (simp add: g w v fitToRange_def)
qed

text \<open>
  The fallback of \<open>invert\<close> is not the point under \<open>p\<close>: on a projection without
  \<open>invert\<close>, \<open>invert(p)\<close> is longitude 0, latitude 0 for every \<open>p\<close>, and after
  \<open>zoomToPoint({x: 500, y: 300}, 2, false)\<close> that point is not at (500, 300).
\<close>

lemma zoomToPoint_anchor_no_invert:
  "convert (fst (reconcile (completeAnimations
       (zoomToPoint noInvertChart \<lparr>px = 500, py = 300\<rparr> 2 False None))))
     (invert noInvertChart \<lparr>px = 500, py = 300\<rparr>) \<noteq> \<lparr>px = 500, py = 300\<rparr>"
  by (simp add: zoomToPoint_def Let_def fitToRange_def get_def noInvertChart_def worldChart_def
      plateCarree_def pass_defs completeAnimations_def complete_def set_setting_def
      convert_def invert_def project_def projectInvert_def)

text \<open>
  The chart \<open>refitChart\<close>: the fit has put the scale of the projection back to the
  fit scale 20/9, and the zoom level is still 2.
\<close>

lemma refitChart_eq:
  "refitChart =
     zoomedChart\<lparr>projection := plateCarree, series := [[(), ()]], geometryColection := [(), ()]\<rparr>"
  by (simp add: refitChart_def pass_defs fitMap_def Let_def setRaw_def innerWidth_def
      innerHeight_def get_def getGeoBounds_def roundBounds_def mathRound_def projectInvert_def
      zoomedChart_def worldChart_def plateCarree_def)
    (simp add: fun_eq_iff)

text \<open>
  Claim C1 fails on the chart that a fit for dirty geometries has left at zoom level 2
  with the scale of zoom level 1. The screen point (500, 300) is inverted to longitude
  45, latitude 0, which the projection shows at (500, 300). After
  \<open>zoomToPoint({x: 500, y: 300}, 4, false)\<close>, the completion of its animations and the
  next pass, that geographic point is at (700, 300): the translate was computed from
  the zoom level 2 of the settings, the scale on the screen was that of zoom level 1.
\<close>

theorem zoomToPoint_anchor_lost:
  "invert refitChart \<lparr>px = 500, py = 300\<rparr> = \<lparr>longitude = 45, latitude = 0\<rparr>
   \<and> convert refitChart \<lparr>longitude = 45, latitude = 0\<rparr> = \<lparr>px = 500, py = 300\<rparr>
   \<and> convert (fst (reconcile (completeAnimations
          (zoomToPoint refitChart \<lparr>px = 500, py = 300\<rparr> 4 False None))))
        \<lparr>longitude = 45, latitude = 0\<rparr> = \<lparr>px = 700, py = 300\<rparr>"
  unfolding refitChart_eq
  by (simp add: zoomToPoint_def Let_def fitToRange_def get_def zoomedChart_def worldChart_def
      plateCarree_def pass_defs completeAnimations_def complete_def set_setting_def
      convert_def invert_def project_def projectInvert_def)

section \<open>Fallbacks of the coordinate transforms\<close>

text \<open>
  Claim C7. \<open>invert\<close> returns longitude 0, latitude 0 when the projection has no
  inverse function and when the inversion yields no result; \<open>convert\<close> returns x 0,
  y 0 when the projection yields no result. In every other case they return what the
  projection yields, so each call has a result: none of them throws.
\<close>

theorem invert_convert_fallback:
  "(rawInvert (projection s) = None \<longrightarrow> invert s p = \<lparr>longitude = 0, latitude = 0\<rparr>)
   \<and> (\<forall>f. rawInvert (projection s) = Some f
            \<longrightarrow> projectInvert (projection s) f (px p, py p) = None
            \<longrightarrow> invert s p = \<lparr>longitude = 0, latitude = 0\<rparr>)
   \<and> (\<forall>f ll. rawInvert (projection s) = Some f
            \<longrightarrow> projectInvert (projection s) f (px p, py p) = Some ll
            \<longrightarrow> invert s p = \<lparr>longitude = fst ll, latitude = snd ll\<rparr>)
   \<and> (project (projection s) (longitude g, latitude g) = None
          \<longrightarrow> convert s g = \<lparr>px = 0, py = 0\<rparr>)
   \<and> (\<forall>xy. project (projection s) (longitude g, latitude g) = Some xy
          \<longrightarrow> convert s g = \<lparr>px = fst xy, py = snd xy\<rparr>)"
  by (simp add: invert_def convert_def)

text \<open>
  Claim C7 on the example charts: a projection without \<open>invert\<close>, a screen point
  below the image of the world, a screen point on the map, a latitude of 95 degrees
  and a point of the map.
\<close>

theorem invert_convert_fallback_witness:
  "rawInvert (projection noInvertChart) = None
   \<and> invert noInvertChart \<lparr>px = 500, py = 300\<rparr> = \<lparr>longitude = 0, latitude = 0\<rparr>
   \<and> (\<exists>f. rawInvert (projection worldChart) = Some f
          \<and> projectInvert (projection worldChart) f (400, 520) = None)
   \<and> invert worldChart \<lparr>px = 400, py = 520\<rparr> = \<lparr>longitude = 0, latitude = 0\<rparr>
   \<and> (\<exists>f. rawInvert (projection worldChart) = Some f
          \<and> projectInvert (projection worldChart) f (490, 210) = Some (81 / 2, 81 / 2))
   \<and> invert worldChart \<lparr>px = 490, py = 210\<rparr> = \<lparr>longitude = 81 / 2, latitude = 81 / 2\<rparr>
   \<and> project (projection worldChart) (0, 95) = None
   \<and> convert worldChart \<lparr>longitude = 0, latitude = 95\<rparr> = \<lparr>px = 0, py = 0\<rparr>
   \<and> project (projection worldChart) (45, 45) = Some (500, 200)
   \<and> convert worldChart \<lparr>longitude = 45, latitude = 45\<rparr> = \<lparr>px = 500, py = 200\<rparr>"
proof -
  let ?f = "\<lambda>(r::rot) (uv::real \<times> real). if \<bar>snd uv\<bar> \<le> 90 then Some (fst uv, - snd uv) else None"
  have a: "rawInvert (projection noInvertChart) = None"
    by (simp add: noInvertChart_def)
  have b: "rawInvert (projection worldChart) = Some ?f"
    by (simp add: worldChart_def plateCarree_def)
  have c: "projectInvert (projection worldChart) ?f (400, 520) = None"
    by (simp add: projectInvert_def worldChart_def plateCarree_def)
  have d: "projectInvert (projection worldChart) ?f (490, 210) = Some (81 / 2, 81 / 2)"
    by (simp add: projectInvert_def worldChart_def plateCarree_def)
  have e: "project (projection worldChart) (0, 95) = None"
    by (simp add: project_def worldChart_def plateCarree_def)
  have f: "project (projection worldChart) (45, 45) = Some (500, 200)"
    by (simp add: project_def worldChart_def plateCarree_def)
  have 1: "invert noInvertChart \<lparr>px = 500, py = 300\<rparr> = \<lparr>longitude = 0, latitude = 0\<rparr>"
    using invert_convert_fallback [of noInvertChart "\<lparr>px = 500, py = 300\<rparr>"] a by blast
  have 2: "invert worldChart \<lparr>px = 400, py = 520\<rparr> = \<lparr>longitude = 0, latitude = 0\<rparr>"
    using invert_convert_fallback [of worldChart "\<lparr>px = 400, py = 520\<rparr>"] b c by simp
  have 3: "invert worldChart \<lparr>px = 490, py = 210\<rparr> = \<lparr>longitude = 81 / 2, latitude = 81 / 2\<rparr>"
    using invert_convert_fallback [of worldChart "\<lparr>px = 490, py = 210\<rparr>"] b d by simp
  have 4: "convert worldChart \<lparr>longitude = 0, latitude = 95\<rparr> = \<lparr>px = 0, py = 0\<rparr>"
    using invert_convert_fallback [of worldChart _ "\<lparr>longitude = 0, latitude = 95\<rparr>"] e by simp
  have 5: "convert worldChart \<lparr>longitude = 45, latitude = 45\<rparr> = \<lparr>px = 500, py = 200\<rparr>"
    using invert_convert_fallback [of worldChart _ "\<lparr>longitude = 45, latitude = 45\<rparr>"] f by simp
  show ?thesis
    using a b c d e f 1 2 3 4 5 by blast
qed

section \<open>The zoom level that is applied\<close>




section \<open>Pinching\<close>

lemma hypot_zero: "hypot a 0 = \<bar>a\<bar>"
  by (simp add: hypot_def)

text \<open>The chart after a pinch move of two pointers that both have a move point.\<close>

lemma pinch_result:
  fixes s :: "'g MapChart"
  assumes dp: "downPoints s = [(k0, d0), (k1, d1)]"
    and mp: "movePoints s k0 = Some m0" "movePoints s k1 = Some m1"
  defines "initialDistance \<equiv> hypot (px (toLocal s d1) - px (toLocal s d0)) (py (toLocal s d1) - py (toLocal s d0))"
  defines "currentDistance \<equiv> hypot (px (toLocal s m1) - px (toLocal s m0)) (py (toLocal s m1) - py (toLocal s m0))"
  defines "level \<equiv> currentDistance / initialDistance * downZoomLevel s"
  defines "mcx \<equiv> px (toLocal s m0) + (px (toLocal s m1) - px (toLocal s m0)) / 2"
  defines "mcy \<equiv> py (toLocal s m0) + (py (toLocal s m1) - py (toLocal s m0)) / 2"
  defines "dcx \<equiv> px (toLocal s d0) + (px (toLocal s d1) - px (toLocal s d0)) / 2"
  defines "dcy \<equiv> py (toLocal s d0) + (py (toLocal s d1) - py (toLocal s d0)) / 2"
  defines "tx \<equiv> (case downTranslateX s of None \<Rightarrow> 0 | Some v \<Rightarrow> v)"
  defines "ty \<equiv> (case downTranslateY s of None \<Rightarrow> 0 | Some v \<Rightarrow> v)"
  defines "xx \<equiv> mcx - (mcx - tx - mcx + dcx) / downZoomLevel s * level"
  defines "yy \<equiv> mcy - (mcy - ty - mcy + dcy) / downZoomLevel s * level"
  shows "handlePinch s =
           set_setting (set_setting (set_setting s ZoomLevel level) TranslateX xx) TranslateY yy"
  by (simp add: handlePinch_def dp mp arrayLength_def arrayGet_def Let_def
      initialDistance_def currentDistance_def level_def mcx_def mcy_def dcx_def dcy_def
      tx_def ty_def xx_def yy_def)


text \<open>
  A pass over a clean chart, in step with its settings, after the zoom level and the
  translate have been set.
\<close>

lemma pass_applies_settings:
  fixes s :: "'g MapChart"
  assumes clean: "dirty s = {}" "privateDirty s = {}" "\<not> dirtyGeometries s"
    and sync: "p_scale (projection s) = mapScale s * get s ZoomLevel 1"
      "p_translate (projection s) = (get s TranslateX dx, get s TranslateY dy)"
    and t: "t = set_setting (set_setting (set_setting s ZoomLevel lv) TranslateX xx) TranslateY yy"
  shows "p_scale (projection (fst (reconcile t))) = mapScale s * lv"
    and "p_translate (projection (fst (reconcile t))) = (xx, yy)"
    and "p_rotate (projection (fst (reconcile t))) = p_rotate (projection s)"
    and "raw (projection (fst (reconcile t))) = raw (projection s)"
    and "settings (fst (reconcile t)) = (settings s)(ZoomLevel \<mapsto> lv, TranslateX \<mapsto> xx, TranslateY \<mapsto> yy)"
proof -
  have st: "settings t = (settings s)(ZoomLevel \<mapsto> lv, TranslateX \<mapsto> xx, TranslateY \<mapsto> yy)"
    unfolding t by (simp add: set_setting_settings)
  have dt: "dirty t = {k. (k = TranslateX \<and> settings s k \<noteq> Some xx)
                        \<or> (k = TranslateY \<and> settings s k \<noteq> Some yy)
                        \<or> (k = ZoomLevel \<and> settings s k \<noteq> Some lv)}"
    unfolding t using clean by (auto simp add: set_setting_settings set_setting_dirty)
  have ft: "projection t = projection s" "mapScale t = mapScale s" "width t = width s"
    "height t = height s" "privateDirty t = {}" "\<not> dirtyGeometries t"
    unfolding t using clean by (simp_all add: set_setting_frame)
  have gt: "get t ZoomLevel 1 = lv" "\<And>d. get t TranslateX d = xx" "\<And>d. get t TranslateY d = yy"
    by (simp_all add: get_def st)
  have q: "Projection \<notin> dirty t" "\<not> dirtyGeometries t" "Width \<notin> privateDirty t"
    "Height \<notin> privateDirty t" "PaddingTop \<notin> dirty t" "PaddingLeft \<notin> dirty t"
    "RotationX \<notin> dirty t" "RotationY \<notin> dirty t" "RotationZ \<notin> dirty t"
    by (simp_all add: dt ft)
  note qp = quiet_pass_projection [OF q]
  show "p_scale (projection (fst (reconcile t))) = mapScale s * lv"
  proof (cases "ZoomLevel \<in> dirty t")
    case True
    then show ?thesis by (simp add: qp(1) ft gt)
  next
    case False
    then have "settings s ZoomLevel = Some lv" by (simp add: dt)
    then have "get s ZoomLevel 1 = lv" by (simp add: get_def)
    with False show ?thesis by (simp add: qp(1) ft sync)
  qed
  show "p_translate (projection (fst (reconcile t))) = (xx, yy)"
  proof (cases "TranslateX \<in> dirty t \<or> TranslateY \<in> dirty t")
    case True
    then show ?thesis by (simp add: qp(2) gt)
  next
    case False
    then have "settings s TranslateX = Some xx" "settings s TranslateY = Some yy"
      by (simp_all add: dt)
    then have "get s TranslateX dx = xx" "get s TranslateY dy = yy" by (simp_all add: get_def)
    with False show ?thesis by (simp add: qp(2) ft sync)
  qed
  show "p_rotate (projection (fst (reconcile t))) = p_rotate (projection s)"
    "raw (projection (fst (reconcile t))) = raw (projection s)"
    by (simp_all add: qp ft)
  show "settings (fst (reconcile t)) = (settings s)(ZoomLevel \<mapsto> lv, TranslateX \<mapsto> xx, TranslateY \<mapsto> yy)"
    by (simp add: qp(5) st)
qed



text \<open>
  The translate that \<open>_handlePinch\<close> computes is right for a projection that is in
  step with the settings. Let the chart be clean and its projection in step with its
  settings, let the snapshots of the translate and of the zoom level be those of the
  start of the gesture, and let the two down points differ. The geographic point \<open>g\<close> that the projection of the start of the
  gesture put at the midpoint of the two down points is, after the pinch move and the
  next pass, at the midpoint of the two move points.
\<close>

lemma handlePinch_anchor_in_step:
  fixes s :: "'g MapChart"
  assumes clean: "dirty s = {}" "privateDirty s = {}" "\<not> dirtyGeometries s"
    and sync: "p_scale (projection s) = mapScale s * get s ZoomLevel 1"
      "p_translate (projection s) = (get s TranslateX (width s / 2), get s TranslateY (height s / 2))"
    and dp: "downPoints s = [(k0, d0), (k1, d1)]"
    and mp: "movePoints s k0 = Some m0" "movePoints s k1 = Some m1"
    and snap: "downTranslateX s = Some tx" "downTranslateY s = Some ty"
    and nz: "downZoomLevel s \<noteq> 0" "mapScale s \<noteq> 0"
    and start: "project ((projection s)\<lparr>p_scale := mapScale s * downZoomLevel s, p_translate := (tx, ty)\<rparr>) g
                  = Some (px (toLocal s d0) + (px (toLocal s d1) - px (toLocal s d0)) / 2,
                          py (toLocal s d0) + (py (toLocal s d1) - py (toLocal s d0)) / 2)"
    and apart: "hypot (px (toLocal s d1) - px (toLocal s d0)) (py (toLocal s d1) - py (toLocal s d0)) \<noteq> 0"
  shows "project (projection (fst (reconcile (handlePinch s)))) g
           = Some (px (toLocal s m0) + (px (toLocal s m1) - px (toLocal s m0)) / 2,
                   py (toLocal s m0) + (py (toLocal s m1) - py (toLocal s m0)) / 2)"
proof -
  define level where "level =
    hypot (px (toLocal s m1) - px (toLocal s m0)) (py (toLocal s m1) - py (toLocal s m0))
    / hypot (px (toLocal s d1) - px (toLocal s d0)) (py (toLocal s d1) - py (toLocal s d0))
    * downZoomLevel s"
  define mcx where "mcx = px (toLocal s m0) + (px (toLocal s m1) - px (toLocal s m0)) / 2"
  define mcy where "mcy = py (toLocal s m0) + (py (toLocal s m1) - py (toLocal s m0)) / 2"
  define dcx where "dcx = px (toLocal s d0) + (px (toLocal s d1) - px (toLocal s d0)) / 2"
  define dcy where "dcy = py (toLocal s d0) + (py (toLocal s d1) - py (toLocal s d0)) / 2"
  define xx where "xx = mcx - (mcx - tx - mcx + dcx) / downZoomLevel s * level"
  define yy where "yy = mcy - (mcy - ty - mcy + dcy) / downZoomLevel s * level"
  have t: "handlePinch s =
      set_setting (set_setting (set_setting s ZoomLevel level) TranslateX xx) TranslateY yy"
    by (simp add: pinch_result [OF dp mp] snap level_def mcx_def mcy_def dcx_def dcy_def
        xx_def yy_def)
  note pa = pass_applies_settings [OF clean sync t]
  obtain uv where uv: "raw (projection s) (p_rotate (projection s)) g = Some uv"
    and ux: "tx + mapScale s * downZoomLevel s * fst uv = dcx"
    and uy: "ty + mapScale s * downZoomLevel s * snd uv = dcy"
    using start by (auto simp add: project_def dcx_def dcy_def split: option.splits)
  have "mcx - tx - mcx + dcx = mapScale s * downZoomLevel s * fst uv"
    using ux by simp
  then have x: "xx + mapScale s * level * fst uv = mcx"
    using nz by (simp add: xx_def)
  have "mcy - ty - mcy + dcy = mapScale s * downZoomLevel s * snd uv"
    using uy by simp
  then have y: "yy + mapScale s * level * snd uv = mcy"
    using nz by (simp add: yy_def)
  have "project (projection (fst (reconcile (handlePinch s)))) g = Some (mcx, mcy)"
    by (simp add: project_def pa uv x y)
  then show ?thesis by (simp add: mcx_def mcy_def)
qed

text \<open>
  On the chart at zoom level 2, which is in step, the point of longitude -45 and
  latitude 0 was at (200, 300), the midpoint of the down points, and is at (200, 300),
  the midpoint of the move points, at zoom level 3.
\<close>

lemma handlePinch_anchor_in_step_example:
  "dirty pinchChart = {} \<and> privateDirty pinchChart = {} \<and> \<not> dirtyGeometries pinchChart
   \<and> downZoomLevel pinchChart \<noteq> 0 \<and> mapScale pinchChart \<noteq> 0
   \<and> hypot (300 - 100) (300 - 300) \<noteq> 0
   \<and> project ((projection pinchChart)\<lparr>p_scale := mapScale pinchChart * downZoomLevel pinchChart,
                                         p_translate := (400, 300)\<rparr>) (- 45, 0) = Some (200, 300)
   \<and> project (projection (fst (reconcile (handlePinch pinchChart)))) (- 45, 0) = Some (200, 300)"
proof -
  have c: "dirty pinchChart = {}" "privateDirty pinchChart = {}" "\<not> dirtyGeometries pinchChart"
    by (simp_all add: pinchChart_def zoomedChart_def worldChart_def)
  have y: "p_scale (projection pinchChart) = mapScale pinchChart * get pinchChart ZoomLevel 1"
    "p_translate (projection pinchChart) =
       (get pinchChart TranslateX (width pinchChart / 2), get pinchChart TranslateY (height pinchChart / 2))"
    by (simp_all add: pinchChart_def zoomedChart_def worldChart_def plateCarree_def get_def)
  have a: "downPoints pinchChart = [(1, \<lparr>px = 100, py = 300\<rparr>), (2, \<lparr>px = 300, py = 300\<rparr>)]"
    and b: "movePoints pinchChart 1 = Some \<lparr>px = 50, py = 300\<rparr>"
      "movePoints pinchChart 2 = Some \<lparr>px = 350, py = 300\<rparr>"
    and d: "downTranslateX pinchChart = Some 400" "downTranslateY pinchChart = Some 300"
    and n: "downZoomLevel pinchChart \<noteq> 0" "mapScale pinchChart \<noteq> 0"
    and l: "toLocal pinchChart = (\<lambda>p. p)"
    by (simp_all add: pinchChart_def zoomedChart_def worldChart_def)
  have p: "project ((projection pinchChart)\<lparr>p_scale := mapScale pinchChart * downZoomLevel pinchChart,
                                         p_translate := (400, 300)\<rparr>) (- 45, 0) = Some (200, 300)"
    by (simp add: project_def pinchChart_def zoomedChart_def worldChart_def plateCarree_def)
  have st: "project ((projection pinchChart)\<lparr>p_scale := mapScale pinchChart * downZoomLevel pinchChart,
                                         p_translate := (400, 300)\<rparr>) (- 45, 0)
          = Some (px (toLocal pinchChart \<lparr>px = 100, py = 300\<rparr>)
                    + (px (toLocal pinchChart \<lparr>px = 300, py = 300\<rparr>) - px (toLocal pinchChart \<lparr>px = 100, py = 300\<rparr>)) / 2,
                  py (toLocal pinchChart \<lparr>px = 100, py = 300\<rparr>)
                    + (py (toLocal pinchChart \<lparr>px = 300, py = 300\<rparr>) - py (toLocal pinchChart \<lparr>px = 100, py = 300\<rparr>)) / 2)"
    by (simp add: p l)
  have ap: "hypot (px (toLocal pinchChart \<lparr>px = 300, py = 300\<rparr>) - px (toLocal pinchChart \<lparr>px = 100, py = 300\<rparr>))
             (py (toLocal pinchChart \<lparr>px = 300, py = 300\<rparr>) - py (toLocal pinchChart \<lparr>px = 100, py = 300\<rparr>)) \<noteq> 0"
    by (simp add: l hypot_zero)
  from handlePinch_anchor_in_step [OF c y a b d n st ap] show ?thesis
    using c n p by (simp add: l hypot_zero)
qed

text \<open>
  Claim C3 fails on the chart that a fit for dirty geometries has left at zoom level 2
  with the scale of zoom level 1. Two pointers go down at (100, 300) and (300, 300);
  the point of longitude -90, latitude 0 is on the screen at their midpoint (200, 300).
  The pointers move to (50, 300) and (350, 300), whose midpoint is (200, 300) too. The
  pinch sets zoom level 3, and after the next pass that geographic point is at
  (-100, 300), not at the midpoint of the move points.
\<close>

theorem handlePinch_anchor_lost:
  "project (projection refitPinchChart) (- 90, 0) = Some (200, 300)
   \<and> settings (handlePinch refitPinchChart) ZoomLevel = Some 3
   \<and> project (projection (fst (reconcile (handlePinch refitPinchChart)))) (- 90, 0)
       = Some (- 100, 300)"
  unfolding refitPinchChart_def refitChart_eq
  by (simp add: handlePinch_def arrayLength_def arrayGet_def hypot_zero Let_def get_def
      zoomedChart_def worldChart_def plateCarree_def pass_defs set_setting_def project_def
      projectInvert_def)

section \<open>The limits of the translate\<close>

lemma limits_ordered:
  fixes w ww z m c :: real
  assumes z: "1 \<le> z" and m: "0 \<le> m" and ww: "0 \<le> ww"
  shows "c + (if w < ww * z then - 1 else 1) * (- 1) * (w - ww) / 2 * z + w - (w / 2) * z - ww * m
         \<le> c + (if w < ww * z then - 1 else 1) * (w - ww) / 2 * z + (w / 2) * z + ww * m"
proof (cases "w < ww * z")
  case True
  have c3: "0 \<le> ww * m" using m ww by simp
  show ?thesis
    using True c3 by (simp add: algebra_simps diff_divide_distrib; linarith)
next
  case False
  then have a: "ww * z \<le> w" by simp
  have "ww * 1 \<le> ww * z" using z ww by (intro mult_left_mono) simp_all
  with a have b: "ww \<le> w" by simp
  with ww have w0: "0 \<le> w" by simp
  have c1: "0 \<le> w * (z - 1)" using w0 z by simp
  have c2: "0 \<le> (w - ww) * z" using b z by simp
  have c3: "0 \<le> ww * m" using m ww by simp
  show ?thesis
    using False c1 c2 c3 by (simp add: algebra_simps diff_divide_distrib; linarith)
qed

text \<open>
  At a zoom level of at least 1, with \<open>maxPanOut\<close> not negative and screen bounds
  that are not inverted, the lower limit of the translate is not above the upper one.
\<close>

lemma panLimitsX_ordered:
  assumes "1 \<le> get s ZoomLevel 1" "0 \<le> get s MaxPanOut 0"
    "fst (fst (mapBounds s)) \<le> fst (snd (mapBounds s))"
  shows "fst (panLimitsX s) \<le> snd (panLimitsX s)"
proof -
  have "0 \<le> fst (snd (mapBounds s)) - fst (fst (mapBounds s))"
    using assms(3) by simp
  from limits_ordered [OF assms(1,2) this] show ?thesis
    unfolding panLimitsX_def Let_def fst_conv snd_conv .
qed

text \<open>
  A drag that has left the click threshold commits a \<open>translateX\<close> between the two
  limits, when the lower limit is not above the upper one.
\<close>

lemma panLimitsX_movePoints: "panLimitsX (s\<lparr>movePoints := m\<rparr>) = panLimitsX s"
  by (simp add: panLimitsX_def get_def)

lemma drag_translateX_clamped:
  assumes np: "\<not> (pinchZoom s \<and> truthy pointerId \<and> length (downPoints s) > 1)"
    and same: "\<not> (truthy downPointId \<and> truthy pointerId \<and> pointerId \<noteq> downPointId)"
    and pan: "panX s \<noteq> Some PanXNone \<or> panY s \<noteq> Some PanYNone"
    and far: "hypot (px (toLocal s dp) - px (toLocal s point)) (py (toLocal s dp) - py (toLocal s point)) > 5"
    and snap: "downTranslateX s = Some x0" "downTranslateY s = Some y0"
    and ord: "fst (panLimitsX s) \<le> snd (panLimitsX s)"
  shows "\<exists>x. settings (handleChartMove s point pointerId (Some dp) downPointId) TranslateX = Some x
              \<and> fst (panLimitsX s) \<le> x \<and> x \<le> snd (panLimitsX s)"
  using assms
  by (cases pointerId)
    (auto simp add: handleChartMove_def Let_def set_setting_settings panLimitsX_movePoints)

text \<open>
  Claim C4 fails for a pinch. On the chart of 800 by 600 pixels at zoom level 1, with
  \<open>maxPanOut\<close> 0.4 and pointers down at (100, 300) and (300, 300), the first pointer
  has moved to (600, 300) and the second moves to (800, 300). \<open>_handlePinch\<close> sets
  \<open>translateX\<close> to 900, and the limits that a drag would apply are 80 and 720.
\<close>

theorem pinch_translate_unclamped:
  "settings (handleChartMove twoFingerChart \<lparr>px = 800, py = 300\<rparr> (Some 2)
               (Some \<lparr>px = 100, py = 300\<rparr>) (Some 1)) TranslateX = Some 900
   \<and> panLimitsX (handleChartMove twoFingerChart \<lparr>px = 800, py = 300\<rparr> (Some 2)
                   (Some \<lparr>px = 100, py = 300\<rparr>) (Some 1)) = (80, 720)"
  by (simp add: handleChartMove_def handlePinch_def truthy_def arrayLength_def arrayGet_def
      hypot_zero Let_def twoFingerChart_def worldChart_def set_setting_def panLimitsX_def get_def)

text \<open>
  The pinch of claim C4 takes the branch of \<open>_handleChartMove\<close> for two pointers
  down, and the \<open>translateX\<close> it commits lies above the upper limit.
\<close>

theorem pinch_translate_unclamped_witness:
  "pinchZoom twoFingerChart \<and> truthy (Some 2) \<and> length (downPoints twoFingerChart) > 1
   \<and> (\<exists>x. settings (handleChartMove twoFingerChart \<lparr>px = 800, py = 300\<rparr> (Some 2)
                        (Some \<lparr>px = 100, py = 300\<rparr>) (Some 1)) TranslateX = Some x
            \<and> snd (panLimitsX (handleChartMove twoFingerChart \<lparr>px = 800, py = 300\<rparr> (Some 2)
                                 (Some \<lparr>px = 100, py = 300\<rparr>) (Some 1))) < x)"
proof -
  have "pinchZoom twoFingerChart" "truthy (Some 2)" "length (downPoints twoFingerChart) > 1"
    by (simp_all add: twoFingerChart_def worldChart_def truthy_def)
  then show ?thesis
    using pinch_translate_unclamped by simp
qed

section \<open>Bounds across the antimeridian\<close>

lemma normalizeBounds_idem: "normalizeBounds (normalizeBounds gb) = normalizeBounds gb"
  by (simp add: normalizeBounds_def)

lemma zoomToGeoBounds_normalized:
  "zoomToGeoBounds s (normalizeBounds gb) d = zoomToGeoBounds s gb d"
  by (simp only: zoomToGeoBounds_def normalizeBounds_idem)

text \<open>
  Claim C8. When the library's bounds of a geometry collection have their right edge
  west of their left edge, \<open>getGeoBounds\<close> returns left -180 and right 180 with the
  top and bottom as they are; \<open>zoomToGeoBounds\<close> makes the same substitution in the
  bounds it is given and zooms as it does for the substituted bounds. Both are total:
  the condition is no error.
\<close>

theorem antimeridian_normalization:
  "(fst (snd (naive gs)) < fst (fst (naive gs))
      \<longrightarrow> getGeoBounds naive gs =
            \<lparr>gb_left = - 180, gb_right = 180, gb_top = snd (snd (naive gs)),
             gb_bottom = snd (fst (naive gs))\<rparr>)
   \<and> (gb_right gb < gb_left gb
      \<longrightarrow> snd (zoomToGeoBounds s gb d) = gb\<lparr>gb_right := 180, gb_left := - 180\<rparr>
          \<and> fst (zoomToGeoBounds s gb d) =
              fst (zoomToGeoBounds s (gb\<lparr>gb_right := 180, gb_left := - 180\<rparr>) d))"
proof -
  have "gb_right gb < gb_left gb \<Longrightarrow> normalizeBounds gb = gb\<lparr>gb_right := 180, gb_left := - 180\<rparr>"
    by (simp add: normalizeBounds_def)
  then have "gb_right gb < gb_left gb \<Longrightarrow>
      zoomToGeoBounds s (gb\<lparr>gb_right := 180, gb_left := - 180\<rparr>) d = zoomToGeoBounds s gb d"
    using zoomToGeoBounds_normalized [of s gb d] by simp
  moreover have "gb_right gb < gb_left gb \<Longrightarrow>
      snd (zoomToGeoBounds s gb d) = gb\<lparr>gb_right := 180, gb_left := - 180\<rparr>"
    by (simp only: zoomToGeoBounds_def Let_def snd_conv) (simp add: normalizeBounds_def)
  moreover have "fst (snd (naive gs)) < fst (fst (naive gs))
      \<Longrightarrow> getGeoBounds naive gs =
            \<lparr>gb_left = - 180, gb_right = 180, gb_top = snd (snd (naive gs)),
             gb_bottom = snd (fst (naive gs))\<rparr>"
    by (simp add: getGeoBounds_def Let_def)
  ultimately show ?thesis by simp
qed

text \<open>
  Claim C8 for bounds from longitude 170 eastwards to longitude -170.
\<close>

theorem antimeridian_normalization_witness:
  "getGeoBounds (\<lambda>gs. ((170, - 10), (- 170, 10))) [()] =
     \<lparr>gb_left = - 180, gb_right = 180, gb_top = 10, gb_bottom = - 10\<rparr>
   \<and> snd (zoomToGeoBounds worldChart
            \<lparr>gb_left = 170, gb_right = - 170, gb_top = 10, gb_bottom = - 10\<rparr> None) =
     \<lparr>gb_left = - 180, gb_right = 180, gb_top = 10, gb_bottom = - 10\<rparr>
   \<and> fst (zoomToGeoBounds worldChart
            \<lparr>gb_left = 170, gb_right = - 170, gb_top = 10, gb_bottom = - 10\<rparr> None) =
     fst (zoomToGeoBounds worldChart
            \<lparr>gb_left = - 180, gb_right = 180, gb_top = 10, gb_bottom = - 10\<rparr> None)"
  using antimeridian_normalization
    [of "\<lambda>gs. ((170, - 10), (- 170, 10))" "[()]"
        "\<lparr>gb_left = 170, gb_right = - 170, gb_top = 10, gb_bottom = - 10\<rparr>" worldChart None]
  by simp

section \<open>The fit and the bounds of a pass\<close>

lemma fitMap_projection:
  "p_scale (projection (fitMap s)) =
     fst (fitSize (projection s) (innerWidth s, innerHeight s) (p_rotate (projection s)) (geometryColection s))"
  "mapScale (fitMap s) =
     fst (fitSize (projection s) (innerWidth s, innerHeight s) (p_rotate (projection s)) (geometryColection s))"
  by (simp_all add: fitMap_def Let_def setRaw_def)

lemma fitMap_bounds:
  "dispatchBounds (fitMap s) =
     (dispatchBounds s \<or> (geometryColection s \<noteq> []
        \<and> roundBounds (getGeoBounds (d3geoBounds s) (geometryColection s)) \<noteq> prevGeoBounds s))"
  "prevGeoBounds (fitMap s) =
     (if geometryColection s \<noteq> []
      then roundBounds (getGeoBounds (d3geoBounds s) (geometryColection s)) else prevGeoBounds s)"
  "geoBounds (fitMap s) =
     (if geometryColection s \<noteq> []
      then roundBounds (getGeoBounds (d3geoBounds s) (geometryColection s))
      else getGeoBounds (d3geoBounds s) (geometryColection s))"
  by (auto simp add: fitMap_def Let_def setRaw_def)

lemma fitMap_frame:
  "geometryColection (fitMap s) = geometryColection s"
  "series (fitMap s) = series s"
  "d3geoBounds (fitMap s) = d3geoBounds s"
  "eventsEnabled (fitMap s) = eventsEnabled s"
  "dirty (fitMap s) = dirty s"
  "privateDirty (fitMap s) = privateDirty s"
  "dirtyGeometries (fitMap s) = dirtyGeometries s"
  "width (fitMap s) = width s"
  "height (fitMap s) = height s"
  by (simp_all add: fitMap_def Let_def setRaw_def)


lemma refitSize_frame:
  "geometryColection (refitSize s) = geometryColection s"
  "series (refitSize s) = series s"
  "d3geoBounds (refitSize s) = d3geoBounds s"
  "eventsEnabled (refitSize s) = eventsEnabled s"
  "dispatchBounds (refitSize s) = dispatchBounds s"
  "prevGeoBounds (refitSize s) = prevGeoBounds s"
  by (simp_all add: refitSize_def Let_def setRaw_def split: option.split)

lemma sizeChanged_frame:
  "geometryColection (sizeChanged s) = geometryColection s"
  "series (sizeChanged s) = series s"
  "d3geoBounds (sizeChanged s) = d3geoBounds s"
  "eventsEnabled (sizeChanged s) = eventsEnabled s"
  "dispatchBounds (sizeChanged s) = dispatchBounds s"
  "prevGeoBounds (sizeChanged s) = prevGeoBounds s"
  by (simp_all add: sizeChanged_def refitSize_frame)

lemma zoomLevelChanged_frame:
  "geometryColection (zoomLevelChanged s) = geometryColection s"
  "series (zoomLevelChanged s) = series s"
  "d3geoBounds (zoomLevelChanged s) = d3geoBounds s"
  "eventsEnabled (zoomLevelChanged s) = eventsEnabled s"
  "dispatchBounds (zoomLevelChanged s) = dispatchBounds s"
  "prevGeoBounds (zoomLevelChanged s) = prevGeoBounds s"
  by (simp_all add: zoomLevelChanged_def)

lemma translateChanged_frame:
  "geometryColection (translateChanged s) = geometryColection s"
  "series (translateChanged s) = series s"
  "d3geoBounds (translateChanged s) = d3geoBounds s"
  "eventsEnabled (translateChanged s) = eventsEnabled s"
  "dispatchBounds (translateChanged s) = dispatchBounds s"
  "prevGeoBounds (translateChanged s) = prevGeoBounds s"
  by (simp_all add: translateChanged_def)

lemma rotationChanged_frame:
  "geometryColection (rotationChanged s) = geometryColection s"
  "series (rotationChanged s) = series s"
  "d3geoBounds (rotationChanged s) = d3geoBounds s"
  "eventsEnabled (rotationChanged s) = eventsEnabled s"
  "dispatchBounds (rotationChanged s) = dispatchBounds s"
  "prevGeoBounds (rotationChanged s) = prevGeoBounds s"
  by (simp_all add: rotationChanged_def)

lemmas later_stages_frame =
  sizeChanged_frame zoomLevelChanged_frame translateChanged_frame rotationChanged_frame

text \<open>
  What a pass does to the bounds, in terms of the chart after the two blocks that may
  fit the map.
\<close>

lemma reconcile_after_fits:
  fixes s :: "'g MapChart"
  defines "b \<equiv> geometriesChanged (projectionChanged s)"
  shows "snd (reconcile s) = (if dispatchBounds b \<and> eventsEnabled b then [Geoboundschanged] else [])"
    and "prevGeoBounds (fst (reconcile s)) = prevGeoBounds b"
    and "geometryColection (fst (reconcile s)) = geometryColection b"
    and "series (fst (reconcile s)) = series b"
    and "d3geoBounds (fst (reconcile s)) = d3geoBounds b"
    and "eventsEnabled (fst (reconcile s)) = eventsEnabled b"
    and "\<not> dispatchBounds (fst (reconcile s))"
    and "dirty (fst (reconcile s)) = {}"
    and "privateDirty (fst (reconcile s)) = {}"
    and "\<not> dirtyGeometries (fst (reconcile s))"
proof -
  define c where "c = rotationChanged (translateChanged (zoomLevelChanged (sizeChanged b)))"
  have c: "geometryColection c = geometryColection b" "series c = series b"
    "d3geoBounds c = d3geoBounds b" "eventsEnabled c = eventsEnabled b"
    "dispatchBounds c = dispatchBounds b" "prevGeoBounds c = prevGeoBounds b"
    by (simp_all add: c_def later_stages_frame)
  have p: "prepareChildren s = dispatchGeoBounds c"
    by (simp add: prepareChildren_def c_def b_def)
  have r: "reconcile s = (clearDirty (updateChildren (fst (dispatchGeoBounds c))), snd (dispatchGeoBounds c))"
    by (simp add: reconcile_def p Let_def)
  show "snd (reconcile s) = (if dispatchBounds b \<and> eventsEnabled b then [Geoboundschanged] else [])"
    by (simp add: r dispatchGeoBounds_def c)
  show "prevGeoBounds (fst (reconcile s)) = prevGeoBounds b"
    "geometryColection (fst (reconcile s)) = geometryColection b"
    "series (fst (reconcile s)) = series b"
    "d3geoBounds (fst (reconcile s)) = d3geoBounds b"
    "eventsEnabled (fst (reconcile s)) = eventsEnabled b"
    "\<not> dispatchBounds (fst (reconcile s))"
    "dirty (fst (reconcile s)) = {}"
    "privateDirty (fst (reconcile s)) = {}"
    "\<not> dirtyGeometries (fst (reconcile s))"
    by (simp_all add: r dispatchGeoBounds_def clearDirty_def updateChildren_def c split: option.split)
qed

text \<open>The dispatch flag and the snapshot after the two blocks that may fit the map.\<close>

lemma fits_recorded:
  fixes s :: "'g MapChart"
  assumes inv: "boundsRecorded s"
  defines "b \<equiv> geometriesChanged (projectionChanged s)"
  defines "new \<equiv> roundBounds (getGeoBounds (d3geoBounds s) (concat (series s)))"
  shows "dispatchBounds b = (dirtyGeometries s \<and> concat (series s) \<noteq> [] \<and> new \<noteq> prevGeoBounds s)"
    and "prevGeoBounds b = (if dirtyGeometries s \<and> concat (series s) \<noteq> [] then new else prevGeoBounds s)"
    and "geometryColection b = (if dirtyGeometries s then concat (series s) else geometryColection s)"
    and "series b = series s" and "d3geoBounds b = d3geoBounds s" and "eventsEnabled b = eventsEnabled s"
proof -
  define a where "a = projectionChanged s"
  have a: "\<not> dispatchBounds a" "prevGeoBounds a = prevGeoBounds s"
    "geometryColection a = geometryColection s" "series a = series s"
    "d3geoBounds a = d3geoBounds s" "eventsEnabled a = eventsEnabled s"
    "dirtyGeometries a = dirtyGeometries s"
    using inv
    by (auto simp add: a_def projectionChanged_def boundsRecorded_def fitMap_bounds fitMap_frame)
  have b: "b = (if dirtyGeometries s then fitMap (a\<lparr>geometryColection := concat (series s)\<rparr>) else a)"
    by (simp add: b_def a_def [symmetric] geometriesChanged_def a)
  show "dispatchBounds b = (dirtyGeometries s \<and> concat (series s) \<noteq> [] \<and> new \<noteq> prevGeoBounds s)"
    by (simp add: b fitMap_bounds a new_def)
  show "prevGeoBounds b = (if dirtyGeometries s \<and> concat (series s) \<noteq> [] then new else prevGeoBounds s)"
    by (simp add: b fitMap_bounds a new_def)
  show "geometryColection b = (if dirtyGeometries s then concat (series s) else geometryColection s)"
    "series b = series s" "d3geoBounds b = d3geoBounds s" "eventsEnabled b = eventsEnabled s"
    by (simp_all add: b fitMap_frame a)
qed

lemma reconcile_events_length: "length (snd (reconcile s)) \<le> 1"
  by (simp add: reconcile_after_fits)

lemma reconcile_twice_silent: "snd (reconcile (fst (reconcile s))) = []"
proof -
  let ?t = "fst (reconcile s)"
  have "geometriesChanged (projectionChanged ?t) = ?t"
    by (simp add: geometriesChanged_def projectionChanged_def isDirty_def reconcile_after_fits)
  then have "dispatchBounds (geometriesChanged (projectionChanged ?t)) = False"
    by (simp add: reconcile_after_fits)
  then show ?thesis
    by (simp add: reconcile_after_fits(1) [of ?t])
qed

text \<open>\<open>boundsRecorded\<close> holds along every run that starts with it.\<close>

lemma boundsRecorded_applyChange: "boundsRecorded s \<Longrightarrow> boundsRecorded (applyChange s c)"
  by (cases c) (simp_all add: boundsRecorded_def set_setting_def)

lemma boundsRecorded_foldl: "boundsRecorded s \<Longrightarrow> boundsRecorded (foldl applyChange s cs)"
  by (induction cs arbitrary: s) (simp_all add: boundsRecorded_applyChange)

lemma boundsRecorded_run: "boundsRecorded s \<Longrightarrow> boundsRecorded (fst (run s css))"
proof (induction css arbitrary: s)
  case Nil
  then show ?case by simp
next
  case (Cons cs css)
  have "boundsRecorded (fst (reconcile (foldl applyChange s cs)))"
    using fits_recorded [OF boundsRecorded_foldl [OF Cons.prems, of cs]]
      boundsRecorded_foldl [OF Cons.prems, of cs]
    by (auto simp add: boundsRecorded_def reconcile_after_fits)
  from Cons.IH [OF this] show ?case by (simp add: Let_def)
qed

section \<open>The event for changed bounds\<close>

text \<open>
  Claim C6. A pass dispatches \<open>geoboundschanged\<close> at most once, and a pass that
  follows a pass at once dispatches nothing. On a chart whose snapshot of the previous
  bounds is the one recorded by the fits before (\<open>boundsRecorded\<close>), a pass
  dispatches the event only when the geometries are dirty and the bounds of the new
  collection, rounded to 3 decimal places, differ from the snapshot; then the snapshot
  becomes these rounded bounds. \<open>boundsRecorded\<close> holds again after the pass.
\<close>

theorem geoboundschanged_once:
  "length (snd (reconcile s)) \<le> 1
   \<and> snd (reconcile (fst (reconcile s))) = []
   \<and> (boundsRecorded s \<longrightarrow>
        snd (reconcile s) =
          (if eventsEnabled s \<and> dirtyGeometries s \<and> concat (series s) \<noteq> []
              \<and> roundBounds (getGeoBounds (d3geoBounds s) (concat (series s))) \<noteq> prevGeoBounds s
           then [Geoboundschanged] else [])
        \<and> (snd (reconcile s) \<noteq> [] \<longrightarrow>
             prevGeoBounds (fst (reconcile s)) =
               roundBounds (getGeoBounds (d3geoBounds s) (concat (series s))))
        \<and> boundsRecorded (fst (reconcile s)))"
proof (intro conjI impI)
  show "length (snd (reconcile s)) \<le> 1" by (rule reconcile_events_length)
  show "snd (reconcile (fst (reconcile s))) = []" by (rule reconcile_twice_silent)
  assume inv: "boundsRecorded s"
  note f = fits_recorded [OF inv]
  show ev: "snd (reconcile s) =
          (if eventsEnabled s \<and> dirtyGeometries s \<and> concat (series s) \<noteq> []
              \<and> roundBounds (getGeoBounds (d3geoBounds s) (concat (series s))) \<noteq> prevGeoBounds s
           then [Geoboundschanged] else [])"
    by (simp add: reconcile_after_fits f)
  show "boundsRecorded (fst (reconcile s))"
    using inv by (auto simp add: boundsRecorded_def reconcile_after_fits f)
  assume "snd (reconcile s) \<noteq> []"
  then show "prevGeoBounds (fst (reconcile s)) =
               roundBounds (getGeoBounds (d3geoBounds s) (concat (series s)))"
    by (simp add: ev reconcile_after_fits f split: if_splits)
qed

text \<open>
  Claim C6 on the chart that gets its first geometry: the pass dispatches the event
  once and records the bounds of the world, the pass after it dispatches nothing, and
  a pass after another geometry with the same rounded bounds dispatches nothing.
\<close>

theorem geoboundschanged_once_witness:
  "boundsRecorded (applyChange emptyChart (SetGeometries [[()]]))
   \<and> snd (reconcile (applyChange emptyChart (SetGeometries [[()]]))) = [Geoboundschanged]
   \<and> prevGeoBounds (fst (reconcile (applyChange emptyChart (SetGeometries [[()]])))) =
       \<lparr>gb_left = - 180, gb_right = 180, gb_top = 90, gb_bottom = - 90\<rparr>
   \<and> snd (reconcile (fst (reconcile (applyChange emptyChart (SetGeometries [[()]]))))) = []
   \<and> snd (reconcile (applyChange (fst (reconcile (applyChange emptyChart (SetGeometries [[()]]))))
                         (SetGeometries [[(), ()]]))) = []"
proof -
  define s1 where "s1 = applyChange emptyChart (SetGeometries [[()]])"
  define t where "t = fst (reconcile s1)"
  define u where "u = applyChange t (SetGeometries [[(), ()]])"
  have s1: "eventsEnabled s1" "dirtyGeometries s1" "series s1 = [[()]]"
    "d3geoBounds s1 = (\<lambda>gs. ((- 180, - 90), (180, 90)))"
    "prevGeoBounds s1 = \<lparr>gb_left = 0, gb_right = 0, gb_top = 0, gb_bottom = 0\<rparr>"
    by (simp_all add: s1_def emptyChart_def worldChart_def)
  have i1: "boundsRecorded s1"
    by (simp add: boundsRecorded_def s1_def emptyChart_def worldChart_def)
  have rb: "\<And>gs. roundBounds (getGeoBounds (\<lambda>gs. ((- 180, - 90), (180, 90))) gs) =
      \<lparr>gb_left = - 180, gb_right = 180, gb_top = 90, gb_bottom = - 90\<rparr>"
    by (simp add: roundBounds_def getGeoBounds_def mathRound_def)
  note g1 = geoboundschanged_once [of s1]
  have e1: "snd (reconcile s1) = [Geoboundschanged]"
    using g1 i1 by (simp add: s1 rb)
  have p1: "prevGeoBounds t = \<lparr>gb_left = - 180, gb_right = 180, gb_top = 90, gb_bottom = - 90\<rparr>"
    using g1 i1 e1 by (simp add: t_def s1 rb)
  have it: "boundsRecorded t"
    using g1 i1 by (simp add: t_def)
  have e2: "snd (reconcile t) = []"
    using g1 by (simp add: t_def)
  have ft: "eventsEnabled t" "d3geoBounds t = (\<lambda>gs. ((- 180, - 90), (180, 90)))"
    by (simp_all add: t_def reconcile_after_fits fits_recorded [OF i1] s1)
  have iu: "boundsRecorded u"
    using it by (simp add: u_def boundsRecorded_def)
  have e3: "snd (reconcile u) = []"
    using geoboundschanged_once [of u] iu by (simp add: u_def ft p1 rb)
  show ?thesis
    using i1 e1 p1 e2 e3 by (simp add: s1_def t_def u_def)
qed

section \<open>A map without geometry\<close>

lemma applyChange_noGeometry:
  assumes "noGeometry c" "geometryColection s = []" "concat (series s) = []" "\<not> dispatchBounds s"
  shows "geometryColection (applyChange s c) = [] \<and> concat (series (applyChange s c)) = []
         \<and> \<not> dispatchBounds (applyChange s c) \<and> prevGeoBounds (applyChange s c) = prevGeoBounds s"
  using assms by (cases c) (simp_all add: set_setting_def)

lemma foldl_applyChange_noGeometry:
  assumes "\<forall>c \<in> set cs. noGeometry c" "geometryColection s = []" "concat (series s) = []"
    "\<not> dispatchBounds s"
  shows "geometryColection (foldl applyChange s cs) = [] \<and> concat (series (foldl applyChange s cs)) = []
         \<and> \<not> dispatchBounds (foldl applyChange s cs)
         \<and> prevGeoBounds (foldl applyChange s cs) = prevGeoBounds s"
  using assms
proof (induction cs arbitrary: s)
  case Nil
  then show ?case by simp
next
  case (Cons c cs)
  from Cons.prems have c: "noGeometry c" and cs: "\<forall>c \<in> set cs. noGeometry c" by simp_all
  note a = applyChange_noGeometry [OF c Cons.prems(2-4)]
  from Cons.IH [OF cs, of "applyChange s c"] a show ?case by simp
qed

lemma fitMap_empty:
  assumes "geometryColection s = []"
  shows "geoBounds (fitMap s) = getGeoBounds (d3geoBounds s) []"
    and "prevGeoBounds (fitMap s) = prevGeoBounds s"
    and "dispatchBounds (fitMap s) = dispatchBounds s"
  using assms by (simp_all add: fitMap_bounds)

lemma reconcile_empty:
  assumes "geometryColection s = []" "concat (series s) = []" "\<not> dispatchBounds s"
  shows "snd (reconcile s) = []" and "geometryColection (fst (reconcile s)) = []"
    and "concat (series (fst (reconcile s))) = []" and "\<not> dispatchBounds (fst (reconcile s))"
    and "prevGeoBounds (fst (reconcile s)) = prevGeoBounds s"
proof -
  have i: "boundsRecorded s" using assms by (simp add: boundsRecorded_def)
  note f = fits_recorded [OF i]
  show "snd (reconcile s) = []" "geometryColection (fst (reconcile s)) = []"
    "concat (series (fst (reconcile s))) = []" "\<not> dispatchBounds (fst (reconcile s))"
    "prevGeoBounds (fst (reconcile s)) = prevGeoBounds s"
    using assms by (simp_all add: reconcile_after_fits f)
qed

text \<open>
  Claim C10. While the geometry collection is empty, \<open>_fitMap\<close> leaves the bounds
  unrounded, the snapshot of the previous bounds as it is and the dispatch flag down.
  So over any run of passes in which no change brings a geometry, no pass dispatches
  an event and the snapshot stays as it was.
\<close>

theorem no_geometry_no_event:
  assumes "geometryColection s = []" "concat (series s) = []" "\<not> dispatchBounds s"
    and "\<forall>cs \<in> set css. \<forall>c \<in> set cs. noGeometry c"
  shows "snd (run s css) = replicate (length css) []
         \<and> prevGeoBounds (fst (run s css)) = prevGeoBounds s
         \<and> \<not> dispatchBounds (fst (run s css))
         \<and> geoBounds (fitMap s) = getGeoBounds (d3geoBounds s) []
         \<and> prevGeoBounds (fitMap s) = prevGeoBounds s
         \<and> \<not> dispatchBounds (fitMap s)"
proof -
  have "snd (run s css) = replicate (length css) []
         \<and> prevGeoBounds (fst (run s css)) = prevGeoBounds s
         \<and> \<not> dispatchBounds (fst (run s css))"
    using assms
  proof (induction css arbitrary: s)
    case Nil
    then show ?case by simp
  next
    case (Cons cs css)
    define t where "t = foldl applyChange s cs"
    from Cons.prems have cs: "\<forall>c \<in> set cs. noGeometry c"
      and css: "\<forall>cs \<in> set css. \<forall>c \<in> set cs. noGeometry c" by simp_all
    note a = foldl_applyChange_noGeometry [OF cs Cons.prems(1-3), folded t_def]
    from a have t: "geometryColection t = []" "concat (series t) = []" "\<not> dispatchBounds t"
      "prevGeoBounds t = prevGeoBounds s" by simp_all
    note r = reconcile_empty [OF t(1-3)]
    note ih = Cons.IH [OF r(2-4) css]
    show ?case
      using ih r(1,5) t(4) by (simp add: t_def [symmetric] Let_def)
  qed
  then show ?thesis
    using assms(1,3) by (simp add: fitMap_empty)
qed

text \<open>
  Claim C10 on the chart without geometry, over three passes: after the zoom level is
  set, after a resize with series that are empty, and after the projection is set.
\<close>

theorem no_geometry_no_event_witness:
  "geometryColection emptyChart = [] \<and> concat (series emptyChart) = []
   \<and> \<not> dispatchBounds emptyChart
   \<and> snd (run emptyChart [[SetSetting ZoomLevel 2], [Resize 400 300, SetGeometries [[], []]],
                        [SetProjection plateCarree]]) = [[], [], []]
   \<and> prevGeoBounds (fst (run emptyChart [[SetSetting ZoomLevel 2],
        [Resize 400 300, SetGeometries [[], []]], [SetProjection plateCarree]])) =
      \<lparr>gb_left = 0, gb_right = 0, gb_top = 0, gb_bottom = 0\<rparr>"
proof -
  define css :: "unit Change list list" where
    "css = [[SetSetting ZoomLevel 2], [Resize 400 300, SetGeometries [[], []]],
            [SetProjection plateCarree]]"
  have a: "geometryColection emptyChart = []" "concat (series emptyChart) = []"
    "\<not> dispatchBounds emptyChart"
    by (simp_all add: emptyChart_def worldChart_def)
  have b: "\<forall>cs \<in> set css. \<forall>c \<in> set cs. noGeometry c"
    by (simp add: css_def)
  have l: "replicate (length css) [] = [[], [], [] :: Event list]"
    by (simp add: css_def)
  have p: "prevGeoBounds emptyChart = \<lparr>gb_left = 0, gb_right = 0, gb_top = 0, gb_bottom = 0\<rparr>"
    by (simp add: emptyChart_def)
  from no_geometry_no_event [OF a b] have
    "snd (run emptyChart css) = [[], [], []]"
    "prevGeoBounds (fst (run emptyChart css)) = \<lparr>gb_left = 0, gb_right = 0, gb_top = 0, gb_bottom = 0\<rparr>"
    by (simp_all only: l p)
  then show ?thesis
    using a unfolding css_def by blast
qed

section \<open>The scale and the zoom level\<close>

lemma fitMap_settings:
  "settings (fitMap s) ZoomLevel = settings s ZoomLevel"
  by (simp add: fitMap_def Let_def setRaw_def)

lemma rotationChanged_fields:
  "p_scale (projection (rotationChanged s)) = p_scale (projection s)"
  "settings (rotationChanged s) = settings s"
  "mapScale (rotationChanged s) = mapScale s"
  by (simp_all add: rotationChanged_def)

text \<open>
  A pass that fits the map for dirty geometries, with neither the size nor the zoom
  level dirty, leaves the scale of the fit.
\<close>

lemma refit_scale:
  assumes g: "dirtyGeometries s"
    and q: "Width \<notin> privateDirty s" "Height \<notin> privateDirty s" "PaddingTop \<notin> dirty s"
      "PaddingLeft \<notin> dirty s" "ZoomLevel \<notin> dirty s"
  shows "p_scale (projection (fst (reconcile s))) = mapScale (fst (reconcile s))"
    and "get (fst (reconcile s)) ZoomLevel 1 = get s ZoomLevel 1"
proof -
  define a where "a = projectionChanged s"
  define b where "b = geometriesChanged a"
  have a: "dirtyGeometries a" "dirty a = dirty s" "privateDirty a = privateDirty s"
    "settings a ZoomLevel = settings s ZoomLevel"
    using g by (simp_all add: a_def projectionChanged_def fitMap_frame fitMap_settings)
  have b: "b = fitMap (a\<lparr>geometryColection := concat (series a)\<rparr>)"
    by (simp add: b_def geometriesChanged_def a)
  have fb: "dirty b = dirty s" "privateDirty b = privateDirty s"
    "settings b ZoomLevel = settings s ZoomLevel" "p_scale (projection b) = mapScale b"
    by (simp_all add: b fitMap_frame fitMap_settings fitMap_projection a)
  have c: "zoomLevelChanged (sizeChanged b) = b"
    using q by (simp add: sizeChanged_def zoomLevelChanged_def isDirty_def isPrivateDirty_def fb)
  have p: "fst (prepareChildren s) = fst (dispatchGeoBounds (rotationChanged (translateChanged b)))"
    by (simp add: prepareChildren_def a_def [symmetric] b_def [symmetric] c)
  show "p_scale (projection (fst (reconcile s))) = mapScale (fst (reconcile s))"
    by (simp add: reconcile_frame p dispatchGeoBounds_frame rotationChanged_fields
        translateChanged_fields fb)
  have "settings (fst (reconcile s)) ZoomLevel = settings s ZoomLevel"
    by (simp add: reconcile_frame p dispatchGeoBounds_frame rotationChanged_fields
        translateChanged_fields fb)
  then show "get (fst (reconcile s)) ZoomLevel 1 = get s ZoomLevel 1"
    by (simp add: get_def)
qed

lemma refit_mapScale:
  assumes g: "dirtyGeometries s" and np: "Projection \<notin> dirty s"
    and q: "Width \<notin> privateDirty s" "Height \<notin> privateDirty s" "PaddingTop \<notin> dirty s"
      "PaddingLeft \<notin> dirty s" "ZoomLevel \<notin> dirty s"
  shows "mapScale (fst (reconcile s)) =
           fst (fitSize (projection s) (innerWidth s, innerHeight s) (p_rotate (projection s))
                  (concat (series s)))"
proof -
  define b where "b = fitMap (s\<lparr>geometryColection := concat (series s)\<rparr>)"
  have b: "geometriesChanged (projectionChanged s) = b"
    using g np by (simp add: b_def geometriesChanged_def projectionChanged_def isDirty_def)
  have fb: "dirty b = dirty s" "privateDirty b = privateDirty s"
    by (simp_all add: b_def fitMap_frame)
  have m: "mapScale b =
           fst (fitSize (projection s) (innerWidth s, innerHeight s) (p_rotate (projection s))
                  (concat (series s)))"
    by (simp add: b_def fitMap_projection innerWidth_def innerHeight_def get_def)
  have c: "zoomLevelChanged (sizeChanged b) = b"
    using q by (simp add: sizeChanged_def zoomLevelChanged_def isDirty_def isPrivateDirty_def fb)
  have p: "fst (prepareChildren s) = fst (dispatchGeoBounds (rotationChanged (translateChanged b)))"
    by (simp add: prepareChildren_def b c)
  show ?thesis
    by (simp add: reconcile_frame p dispatchGeoBounds_frame rotationChanged_fields
        translateChanged_fields m)
qed

text \<open>
  A pass in which neither the projection, nor the geometries, nor the size is dirty
  keeps \<open>mapScale\<close>, whatever else is dirty, and keeps the scale in step with the
  zoom level.
\<close>

lemma quiet_pass_scale:
  assumes "Projection \<notin> dirty s" "\<not> dirtyGeometries s" "Width \<notin> privateDirty s"
    "Height \<notin> privateDirty s" "PaddingTop \<notin> dirty s" "PaddingLeft \<notin> dirty s"
  shows "mapScale (fst (reconcile s)) = mapScale s"
    and "p_scale (projection s) = mapScale s * get s ZoomLevel 1 \<Longrightarrow>
         p_scale (projection (fst (reconcile s))) =
           mapScale (fst (reconcile s)) * get (fst (reconcile s)) ZoomLevel 1"
proof -
  have p: "fst (prepareChildren s) =
      fst (dispatchGeoBounds (rotationChanged (translateChanged (zoomLevelChanged s))))"
    by (simp add: prepareChildren_def quiet_stages [OF assms])
  show m: "mapScale (fst (reconcile s)) = mapScale s"
    by (simp add: reconcile_frame p dispatchGeoBounds_frame rotationChanged_fields
        translateChanged_fields zoomLevelChanged_fields)
  have "settings (fst (reconcile s)) = settings s"
    by (simp add: reconcile_frame p dispatchGeoBounds_frame rotationChanged_fields
        translateChanged_fields zoomLevelChanged_fields)
  then have g: "get (fst (reconcile s)) ZoomLevel 1 = get s ZoomLevel 1"
    by (simp add: get_def)
  assume "p_scale (projection s) = mapScale s * get s ZoomLevel 1"
  then show "p_scale (projection (fst (reconcile s))) =
           mapScale (fst (reconcile s)) * get (fst (reconcile s)) ZoomLevel 1"
    by (simp add: m g reconcile_frame p dispatchGeoBounds_frame rotationChanged_fields
        translateChanged_fields zoomLevelChanged_fields)
qed

text \<open>
  Claim C5 fails after a fit for dirty geometries. The chart at zoom level 2 has the
  scale \<open>mapScale\<close> times 2. A series changes its geometries and the next pass runs:
  \<open>_fitMap\<close> stores the fit scale 20/9 as \<open>mapScale\<close> and leaves it as the scale
  of the projection, the zoom level is still 2, and the scale is not \<open>mapScale\<close>
  times the zoom level.
\<close>

theorem refit_loses_zoom:
  "p_scale (projection zoomedChart) = mapScale zoomedChart * get zoomedChart ZoomLevel 1
   \<and> get (fst (run zoomedChart [[SetGeometries [[(), ()]]]])) ZoomLevel 1 = 2
   \<and> mapScale (fst (run zoomedChart [[SetGeometries [[(), ()]]]])) = 20 / 9
   \<and> p_scale (projection (fst (run zoomedChart [[SetGeometries [[(), ()]]]]))) = 20 / 9
   \<and> p_scale (projection (fst (run zoomedChart [[SetGeometries [[(), ()]]]])))
       \<noteq> mapScale (fst (run zoomedChart [[SetGeometries [[(), ()]]]]))
           * get (fst (run zoomedChart [[SetGeometries [[(), ()]]]])) ZoomLevel 1"
proof -
  define s where "s = applyChange zoomedChart (SetGeometries [[(), ()]])"
  have r: "fst (run zoomedChart [[SetGeometries [[(), ()]]]]) = fst (reconcile s)"
    by (simp add: s_def Let_def)
  have h: "dirtyGeometries s" "Width \<notin> privateDirty s" "Height \<notin> privateDirty s"
    "PaddingTop \<notin> dirty s" "PaddingLeft \<notin> dirty s" "ZoomLevel \<notin> dirty s"
    and np: "Projection \<notin> dirty s"
    by (simp_all add: s_def zoomedChart_def worldChart_def)
  have z: "get s ZoomLevel 1 = 2"
    by (simp add: s_def zoomedChart_def worldChart_def get_def)
  have f: "fst (fitSize (projection s) (innerWidth s, innerHeight s) (p_rotate (projection s))
                  (concat (series s))) = 20 / 9"
    by (simp add: s_def zoomedChart_def worldChart_def plateCarree_def innerWidth_def get_def)
  have m: "mapScale (fst (reconcile s)) = 20 / 9"
    by (simp add: refit_mapScale [OF h(1) np h(2-6)] f)
  have k: "p_scale (projection (fst (reconcile s))) = 20 / 9"
    by (simp add: refit_scale(1) [OF h] m)
  have g: "get (fst (reconcile s)) ZoomLevel 1 = 2"
    by (simp add: refit_scale(2) [OF h] z)
  have y: "p_scale (projection zoomedChart) = mapScale zoomedChart * get zoomedChart ZoomLevel 1"
    by (simp add: zoomedChart_def worldChart_def plateCarree_def get_def)
  show ?thesis
    unfolding r by (simp add: m k g y)
qed

end
